theory Spec2Isabelle
  imports Complex_Main "HOL-Library.Word"
begin

section \<open>Data model\<close>

text \<open>
  The cluster coordinator is modelled sequentially: every function of
  \<^verbatim>\<open>RaftCluster\<close> takes the cluster and returns the updated cluster together with
  its result. Locks are not modelled, and the Prometheus counters, which are write-only
  telemetry, are left out. A Go \<^verbatim>\<open>error\<close> result is an \<open>error option\<close>
  (\<open>None\<close> is \<^verbatim>\<open>nil\<close>). Unsigned 64-bit integers are \<open>64 word\<close>, and so
  are the \<^verbatim>\<open>int\<close> counters that the code increments, read as two's complement
  through \<open>sint\<close>; counts that are computed from the lengths of lists are
  \<open>int\<close>. Points in time and durations are nanoseconds as \<open>int\<close>.
\<close>

type_synonym uint64 = "64 word"
type_synonym Time = int
type_synonym Duration = int

text \<open>
  A \<^verbatim>\<open>float64\<close>: \<open>Finite x\<close> is the one whose value is the real number
  \<open>x\<close>, beside the two infinities and NaN. The comparisons are Go's: finite values
  compare as the numbers they denote, and every comparison with NaN is false.
\<close>

datatype float64 = Finite real | PosInf | NegInf | NaN

fun float_lt :: "float64 \<Rightarrow> float64 \<Rightarrow> bool" where
  "float_lt (Finite a) (Finite b) = (a < b)"
| "float_lt (Finite a) PosInf = True"
| "float_lt NegInf (Finite b) = True"
| "float_lt NegInf PosInf = True"
| "float_lt x y = False"

definition float_eq :: "float64 \<Rightarrow> float64 \<Rightarrow> bool" where
  "float_eq x y = (x \<noteq> NaN \<and> x = y)"

definition float_le :: "float64 \<Rightarrow> float64 \<Rightarrow> bool" where
  "float_le x y = (float_lt x y \<or> float_eq x y)"

definition float_gt :: "float64 \<Rightarrow> float64 \<Rightarrow> bool" where
  "float_gt x y = float_lt y x"

subsection \<open>Protocol messages (metapb, pdpb)\<close>

text \<open>
  Modelled from the spec: the protobuf messages of \<^verbatim>\<open>metapb\<close> and
  \<^verbatim>\<open>pdpb\<close> are not part of the sources. The records carry the attributes that
  section 3 of the specification lists for stores, regions and peers, with the field names
  that the sources read through the generated getters. \<open>StoreType_Other\<close> stands
  for every further value that the open protobuf enum can carry.
\<close>

datatype StoreState = StoreState_Up | StoreState_Offline | StoreState_Tombstone

datatype StoreType = StoreType_Storage | StoreType_Performance | StoreType_Other

record StoreLabel =
  label_Key :: string
  label_Value :: string

record Store =
  store_Id :: uint64
  store_Address :: string
  store_State :: StoreState
  store_Labels :: "StoreLabel list"
  store_Version :: string
  store_PeerAddress :: string
  store_StoreType :: StoreType

record StoreStats =
  stats_StoreId :: uint64
  stats_Capacity :: uint64
  stats_Available :: uint64
  stats_UsedSize :: uint64
  stats_SendingSnapCount :: "32 word"
  stats_ReceivingSnapCount :: "32 word"
  stats_ApplyingSnapCount :: "32 word"
  stats_IsBusy :: bool
  stats_BytesWritten :: uint64
  stats_BytesRead :: uint64
  stats_KeysWritten :: uint64
  stats_KeysRead :: uint64

datatype PeerRole = Voter | Learner

record Peer =
  peer_Id :: uint64
  peer_StoreId :: uint64
  peer_Role :: PeerRole

record RegionEpoch =
  epoch_ConfVer :: uint64
  epoch_Version :: uint64

record Region =
  region_Id :: uint64
  region_StartKey :: "8 word list"
  region_EndKey :: "8 word list"
  region_RegionEpoch :: RegionEpoch
  region_Peers :: "Peer list"

record PeerStats =
  ps_Peer :: Peer
  ps_DownSeconds :: uint64

subsection \<open>Cached store and region snapshots (core)\<close>

text \<open>
  Modelled from the spec: \<^verbatim>\<open>core.StoreInfo\<close> and \<^verbatim>\<open>core.RegionInfo\<close> are
  not part of the sources. A store snapshot is its meta together with the sampled
  statistics, the derived counters, the last-heartbeat timestamp, the two weights, the
  blocked flag and the optional availability predicate (section 3). A region snapshot is
  its meta together with the leader, the down and pending peers, the approximate size and
  key count and the observed flow. A \<^verbatim>\<open>nil\<close> pointer is \<open>None\<close>.
\<close>

record StoreInfo =
  si_meta :: Store
  si_stats :: "StoreStats option"
  si_blocked :: bool
  si_leaderCount :: int
  si_regionCount :: int
  si_leaderSize :: int
  si_regionSize :: int
  si_pendingPeerCount :: int
  si_lastHeartbeatTS :: Time
  si_leaderWeight :: float64
  si_regionWeight :: float64
  si_available :: "bool option"

record RegionInfo =
  ri_meta :: Region
  ri_leader :: "Peer option"
  ri_downPeers :: "PeerStats list"
  ri_pendingPeers :: "Peer list"
  ri_approximateSize :: int
  ri_approximateKeys :: int
  ri_writtenBytes :: uint64
  ri_readBytes :: uint64
  ri_writtenKeys :: uint64
  ri_readKeys :: uint64

definition GetID :: "StoreInfo \<Rightarrow> uint64" where
  "GetID s = store_Id (si_meta s)"

definition GetAddress :: "StoreInfo \<Rightarrow> string" where
  "GetAddress s = store_Address (si_meta s)"

definition GetState :: "StoreInfo \<Rightarrow> StoreState" where
  "GetState s = store_State (si_meta s)"

definition GetLabels :: "StoreInfo \<Rightarrow> StoreLabel list" where
  "GetLabels s = store_Labels (si_meta s)"

definition IsUp :: "StoreInfo \<Rightarrow> bool" where
  "IsUp s = (GetState s = StoreState_Up)"

definition IsOffline :: "StoreInfo \<Rightarrow> bool" where
  "IsOffline s = (GetState s = StoreState_Offline)"

definition IsTombstone :: "StoreInfo \<Rightarrow> bool" where
  "IsTombstone s = (GetState s = StoreState_Tombstone)"

text \<open>
  Modelled from the spec: \<^verbatim>\<open>StoreInfo.GetLabelValue\<close> is not part of the sources.
  The labels of a store are key/value pairs; the value of a key is the value of the first
  label carrying that key, and the empty string when there is none.
\<close>

fun labelValue :: "StoreLabel list \<Rightarrow> string \<Rightarrow> string" where
  "labelValue [] k = []"
| "labelValue (l # ls) k = (if label_Key l = k then label_Value l else labelValue ls k)"

definition GetLabelValue :: "StoreInfo \<Rightarrow> string \<Rightarrow> string" where
  "GetLabelValue s k = labelValue (GetLabels s) k"

text \<open>
  Modelled from the spec: \<^verbatim>\<open>core.NewStoreInfo\<close> is not part of the sources. A
  store entry is created from the meta of the first successful \<^verbatim>\<open>putStore\<close>; the
  specification leaves the initial counters and weights open, and nothing proved below
  depends on the values chosen here.
\<close>

definition NewStoreInfo :: "Store \<Rightarrow> StoreInfo" where
  "NewStoreInfo store =
     \<lparr> si_meta = store, si_stats = None, si_blocked = False,
       si_leaderCount = 0, si_regionCount = 0, si_leaderSize = 0, si_regionSize = 0,
       si_pendingPeerCount = 0, si_lastHeartbeatTS = 0,
       si_leaderWeight = Finite 1, si_regionWeight = Finite 1, si_available = None \<rparr>"

text \<open>
  The option setters passed to \<^verbatim>\<open>StoreInfo.Clone\<close>: each one replaces the field
  it is named for in the copy.
\<close>

definition SetStoreAddress :: "string \<Rightarrow> string \<Rightarrow> StoreInfo \<Rightarrow> StoreInfo" where
  "SetStoreAddress address peerAddress s =
     s\<lparr>si_meta := (si_meta s)\<lparr>store_Address := address, store_PeerAddress := peerAddress\<rparr>\<rparr>"

definition SetStoreVersion :: "string \<Rightarrow> StoreInfo \<Rightarrow> StoreInfo" where
  "SetStoreVersion version s = s\<lparr>si_meta := (si_meta s)\<lparr>store_Version := version\<rparr>\<rparr>"

definition SetStoreLabels :: "StoreLabel list \<Rightarrow> StoreInfo \<Rightarrow> StoreInfo" where
  "SetStoreLabels labels s = s\<lparr>si_meta := (si_meta s)\<lparr>store_Labels := labels\<rparr>\<rparr>"

definition core_SetStoreState :: "StoreState \<Rightarrow> StoreInfo \<Rightarrow> StoreInfo" where
  "core_SetStoreState state s = s\<lparr>si_meta := (si_meta s)\<lparr>store_State := state\<rparr>\<rparr>"

definition SetStoreStats :: "StoreStats option \<Rightarrow> StoreInfo \<Rightarrow> StoreInfo" where
  "SetStoreStats stats s = s\<lparr>si_stats := stats\<rparr>"

definition SetLastHeartbeatTS :: "Time \<Rightarrow> StoreInfo \<Rightarrow> StoreInfo" where
  "SetLastHeartbeatTS t s = s\<lparr>si_lastHeartbeatTS := t\<rparr>"

subsection \<open>Errors and log\<close>

datatype error =
    ErrStoreNotFound uint64
  | ErrStoreTombstoned uint64
  | ErrRegionIsStale Region Region
  | ErrInvalidPutStore Store
  | ErrInvalidVersion Store string
  | ErrIncompatibleVersion
  | ErrDuplicatedAddress Store Store
  | ErrLabelKeyMissing string
  | ErrLabelKeyNotFound string
  | ErrStoreStillUp
  | ErrStorage string

datatype LogLevel = LDebug | LInfo | LWarn | LError

type_synonym LogEntry = "LogLevel \<times> string"

subsection \<open>Collaborators outside the sources\<close>

text \<open>
  \<^verbatim>\<open>semver.Version\<close>, as read by \<^verbatim>\<open>ParseVersion\<close> and
  \<^verbatim>\<open>IsCompatible\<close>.
\<close>

record Version =
  ver_Major :: int
  ver_Minor :: int
  ver_Patch :: int

text \<open>
  Modelled from the spec: a hot-peer record of the hot-spot cache (section 3).
\<close>

record HotPeerStat =
  hp_RegionID :: uint64
  hp_StoreID :: uint64
  hp_ByteRate :: float64
  hp_KeyRate :: float64
  hp_HitCount :: int
  hp_LastUpdateTime :: Time
  hp_isLeader :: bool

text \<open>
  The statistics components (\<^verbatim>\<open>StoresStats\<close>, \<^verbatim>\<open>RegionStatistics\<close>,
  \<^verbatim>\<open>LabelStatistics\<close>, \<^verbatim>\<open>HotCache\<close>) are not part of the sources. Each one
  is represented by the sequence of update calls made on it, oldest first.
\<close>

datatype StoresStatsCall =
    CreateRollingStoreStats uint64
  | Observe uint64 "StoreStats option"
  | UpdateTotalBytesRate "StoreInfo list"

datatype RegionStatsCall =
    RS_Observe RegionInfo "StoreInfo list"
  | RS_ClearDefunctRegion uint64

datatype LabelStatsCall =
    LS_ClearDefunctRegion uint64 "string list"

text \<open>
  The functions of other packages that the cluster calls and the sources do not contain,
  taken as parameters: version parsing and compatibility, the label merge of
  \<^verbatim>\<open>StoreInfo.MergeLabels\<close>, the hot-spot checks, and the outcome of the three
  metadata-store writes (\<open>Some msg\<close> when the write fails with error \<open>msg\<close>).
\<close>

record Env =
  ParseVersion :: "string \<Rightarrow> string + Version"
  IsCompatible :: "Version \<Rightarrow> Version \<Rightarrow> bool"
  MergeLabels :: "StoreInfo \<Rightarrow> StoreLabel list \<Rightarrow> StoreLabel list"
  CheckWriteStatus :: "HotPeerStat list \<Rightarrow> RegionInfo \<Rightarrow> HotPeerStat list"
  CheckReadStatus :: "HotPeerStat list \<Rightarrow> RegionInfo \<Rightarrow> HotPeerStat list"
  SaveStore_err :: "Store \<Rightarrow> string option"
  SaveRegion_err :: "Region \<Rightarrow> string option"
  DeleteRegion_err :: "Region \<Rightarrow> string option"

subsection \<open>The cluster\<close>

text \<open>
  Modelled from the spec: the metadata store keeps one serialised store meta per store
  id and one region meta per region id (section 6).
\<close>

record Storage =
  kv_Stores :: "uint64 \<rightharpoonup> Store"
  kv_Regions :: "uint64 \<rightharpoonup> Region"

record ScheduleOption =
  opt_ClusterVersion :: Version
  opt_LocationLabels :: "string list"
  opt_StrictlyMatchLabel :: bool
  opt_MaxReplicas :: int

record prepareChecker =
  pc_reactiveRegions :: "uint64 \<Rightarrow> 64 word"
  pc_sum :: "64 word"

record RaftCluster =
  rc_stores :: "StoreInfo list"
  rc_regions :: "RegionInfo list"
  rc_opt :: ScheduleOption
  rc_storage :: "Storage option"
  rc_prepareChecker :: prepareChecker
  rc_changedRegions :: "RegionInfo list"
  rc_labelLevelStats :: "LabelStatsCall list"
  rc_regionStats :: "RegionStatsCall list option"
  rc_storesStats :: "StoresStatsCall list"
  rc_hotSpotCache :: "HotPeerStat list"
  rc_log :: "LogEntry list"

definition logf :: "LogLevel \<Rightarrow> string \<Rightarrow> RaftCluster \<Rightarrow> RaftCluster" where
  "logf lvl msg c = c\<lparr>rc_log := rc_log c @ [(lvl, msg)]\<rparr>"

text \<open>
  Modelled from the spec: the store index of \<^verbatim>\<open>core.BasicCluster\<close> is not part
  of the sources. It offers the point lookup by store id and the enumeration of the
  stores (section 4.1); \<^verbatim>\<open>PutStore\<close> files a snapshot under its own id, in
  place of the snapshot filed under that id before.
\<close>

definition GetStore :: "RaftCluster \<Rightarrow> uint64 \<Rightarrow> StoreInfo option" where
  "GetStore c storeID = find (\<lambda>s. GetID s = storeID) (rc_stores c)"

definition GetStores :: "RaftCluster \<Rightarrow> StoreInfo list" where
  "GetStores c = rc_stores c"

definition core_PutStore :: "StoreInfo \<Rightarrow> RaftCluster \<Rightarrow> RaftCluster" where
  "core_PutStore s c =
     c\<lparr>rc_stores :=
         (if \<exists>x \<in> set (rc_stores c). GetID x = GetID s
          then map (\<lambda>x. if GetID x = GetID s then s else x) (rc_stores c)
          else rc_stores c @ [s])\<rparr>"

section \<open>Store administration\<close>

definition putStoreLocked :: "Env \<Rightarrow> RaftCluster \<Rightarrow> StoreInfo \<Rightarrow> RaftCluster \<times> error option" where
  "putStoreLocked env c store =
     (case rc_storage c of
        None \<Rightarrow>
          ((core_PutStore store c)
             \<lparr>rc_storesStats := rc_storesStats c @ [CreateRollingStoreStats (GetID store)]\<rparr>, None)
      | Some kv \<Rightarrow>
          (case SaveStore_err env (si_meta store) of
             Some msg \<Rightarrow> (c, Some (ErrStorage msg))
           | None \<Rightarrow>
               ((core_PutStore store c)
                  \<lparr>rc_storage := Some (kv\<lparr>kv_Stores := (kv_Stores kv)(GetID store \<mapsto> si_meta store)\<rparr>),
                   rc_storesStats := rc_storesStats c @ [CreateRollingStoreStats (GetID store)]\<rparr>,
                None)))"

text \<open>The address loop of \<^verbatim>\<open>putStore\<close>: the first store that holds the address.\<close>

fun duplicatedAddress :: "Store \<Rightarrow> StoreInfo list \<Rightarrow> StoreInfo option" where
  "duplicatedAddress store [] = None"
| "duplicatedAddress store (s # ss) =
     (if IsTombstone s then duplicatedAddress store ss
      else if GetID s \<noteq> store_Id store \<and> GetAddress s = store_Address store then Some s
      else duplicatedAddress store ss)"

text \<open>The first label loop of \<^verbatim>\<open>putStore\<close>, over the configured location labels.\<close>

fun checkLocationLabels :: "bool \<Rightarrow> StoreInfo \<Rightarrow> string list \<Rightarrow> RaftCluster \<Rightarrow> RaftCluster \<times> error option" where
  "checkLocationLabels strict s [] c = (c, None)"
| "checkLocationLabels strict s (k # ks) c =
     (if length (GetLabelValue s k) = 0 then
        (let c1 = logf LWarn ''label configuration is incorrect'' c in
         if strict then (c1, Some (ErrLabelKeyMissing k))
         else checkLocationLabels strict s ks c1)
      else checkLocationLabels strict s ks c)"

text \<open>The second label loop, over the labels of the store.\<close>

fun checkStoreLabels :: "bool \<Rightarrow> string list \<Rightarrow> StoreLabel list \<Rightarrow> RaftCluster \<Rightarrow> RaftCluster \<times> error option" where
  "checkStoreLabels strict keysSet [] c = (c, None)"
| "checkStoreLabels strict keysSet (label # ls) c =
     (let key = label_Key label in
      if key \<notin> set keysSet then
        (let c1 = logf LWarn ''not found the key match with the store label'' c in
         if strict then (c1, Some (ErrLabelKeyNotFound key))
         else checkStoreLabels strict keysSet ls c1)
      else checkStoreLabels strict keysSet ls c)"

text \<open>
  The snapshot that \<^verbatim>\<open>putStore\<close> is about to file: a new one for an unknown id,
  and otherwise the cached one with the address, the version and the merged labels
  replaced.
\<close>

definition putStoreSnapshot :: "Env \<Rightarrow> RaftCluster \<Rightarrow> Store \<Rightarrow> StoreInfo" where
  "putStoreSnapshot env c store =
     (case GetStore c (store_Id store) of
        None \<Rightarrow> NewStoreInfo store
      | Some s0 \<Rightarrow>
          (let labels = MergeLabels env s0 (store_Labels store) in
           SetStoreLabels labels
             (SetStoreVersion (store_Version store)
               (SetStoreAddress (store_Address store) (store_PeerAddress store) s0))))"

definition putStore :: "Env \<Rightarrow> RaftCluster \<Rightarrow> Store \<Rightarrow> RaftCluster \<times> error option" where
  "putStore env c store =
     (if store_Id store = 0 then (c, Some (ErrInvalidPutStore store))
      else case ParseVersion env (store_Version store) of
        Inl err \<Rightarrow> (c, Some (ErrInvalidVersion store err))
      | Inr v \<Rightarrow>
          if \<not> IsCompatible env (opt_ClusterVersion (rc_opt c)) v
          then (c, Some ErrIncompatibleVersion)
          else (case duplicatedAddress store (GetStores c) of
            Some s \<Rightarrow> (c, Some (ErrDuplicatedAddress store (si_meta s)))
          | None \<Rightarrow>
              (let s = putStoreSnapshot env c store;
                   strict = opt_StrictlyMatchLabel (rc_opt c);
                   keys = opt_LocationLabels (rc_opt c);
                   (c1, err1) = checkLocationLabels strict s keys c
               in if err1 \<noteq> None then (c1, err1)
                  else (let (c2, err2) = checkStoreLabels strict keys (GetLabels s) c1
                        in if err2 \<noteq> None then (c2, err2)
                           else putStoreLocked env c2 s))))"

definition RemoveStore :: "Env \<Rightarrow> RaftCluster \<Rightarrow> uint64 \<Rightarrow> RaftCluster \<times> error option" where
  "RemoveStore env c storeID =
     (case GetStore c storeID of
        None \<Rightarrow> (c, Some (ErrStoreNotFound storeID))
      | Some store \<Rightarrow>
          if IsOffline store then (c, None)
          else if IsTombstone store then (c, Some (ErrStoreTombstoned storeID))
          else (let newStore = core_SetStoreState StoreState_Offline store;
                    c1 = logf LWarn ''store has been offline'' c
                in putStoreLocked env c1 newStore))"

definition BuryStore :: "Env \<Rightarrow> RaftCluster \<Rightarrow> uint64 \<Rightarrow> bool \<Rightarrow> RaftCluster \<times> error option" where
  "BuryStore env c storeID force =
     (case GetStore c storeID of
        None \<Rightarrow> (c, Some (ErrStoreNotFound storeID))
      | Some store \<Rightarrow>
          if IsTombstone store then (c, None)
          else if IsUp store \<and> \<not> force then (c, Some ErrStoreStillUp)
          else (let c1 = (if IsUp store then logf LWarn ''forcedly bury store'' c else c);
                    newStore = core_SetStoreState StoreState_Tombstone store;
                    c2 = logf LWarn ''store has been Tombstone'' c1
                in putStoreLocked env c2 newStore))"

definition SetStoreState :: "Env \<Rightarrow> RaftCluster \<Rightarrow> uint64 \<Rightarrow> StoreState \<Rightarrow> RaftCluster \<times> error option" where
  "SetStoreState env c storeID state =
     (case GetStore c storeID of
        None \<Rightarrow> (c, Some (ErrStoreNotFound storeID))
      | Some store \<Rightarrow>
          (let newStore = core_SetStoreState state store;
               c1 = logf LWarn ''store update state'' c
           in putStoreLocked env c1 newStore))"

definition GetStoreId :: "StoreStats option \<Rightarrow> uint64" where
  "GetStoreId stats = (case stats of None \<Rightarrow> 0 | Some st \<Rightarrow> stats_StoreId st)"

definition handleStoreHeartbeat :: "Time \<Rightarrow> RaftCluster \<Rightarrow> StoreStats option \<Rightarrow> RaftCluster \<times> error option" where
  "handleStoreHeartbeat now c stats =
     (let storeID = GetStoreId stats in
      case GetStore c storeID of
        None \<Rightarrow> (c, Some (ErrStoreNotFound storeID))
      | Some store \<Rightarrow>
          (let newStore = SetLastHeartbeatTS now (SetStoreStats stats store);
               c1 = core_PutStore newStore c;
               c2 = c1\<lparr>rc_storesStats := rc_storesStats c1 @ [Observe (GetID newStore) (si_stats newStore)]\<rparr>;
               c3 = c2\<lparr>rc_storesStats := rc_storesStats c2 @ [UpdateTotalBytesRate (GetStores c2)]\<rparr>
           in (c3, None)))"

section \<open>Region heartbeat\<close>

subsection \<open>The region index\<close>

text \<open>\<^verbatim>\<open>bytes.Compare(a, b) < 0\<close>: unsigned lexicographic order on keys.\<close>

fun key_less :: "8 word list \<Rightarrow> 8 word list \<Rightarrow> bool" where
  "key_less [] [] = False"
| "key_less [] (y # ys) = True"
| "key_less (x # xs) [] = False"
| "key_less (x # xs) (y # ys) = (x < y \<or> (x = y \<and> key_less xs ys))"

definition GetRegionID :: "RegionInfo \<Rightarrow> uint64" where
  "GetRegionID r = region_Id (ri_meta r)"

definition GetVersion :: "RegionInfo \<Rightarrow> uint64" where
  "GetVersion r = epoch_Version (region_RegionEpoch (ri_meta r))"

definition GetConfVer :: "RegionInfo \<Rightarrow> uint64" where
  "GetConfVer r = epoch_ConfVer (region_RegionEpoch (ri_meta r))"

definition GetPeers :: "RegionInfo \<Rightarrow> Peer list" where
  "GetPeers r = region_Peers (ri_meta r)"

text \<open>\<^verbatim>\<open>GetLeader().GetId()\<close>: the generated getter answers 0 on a nil peer.\<close>

definition GetLeaderId :: "RegionInfo \<Rightarrow> uint64" where
  "GetLeaderId r = (case ri_leader r of None \<Rightarrow> 0 | Some p \<Rightarrow> peer_Id p)"

text \<open>
  Modelled from the spec: the region index of \<^verbatim>\<open>core.BasicCluster\<close> is not part
  of the sources. A region covers the half-open range from its start key to its end key,
  an empty end key meaning no upper bound (section 3). \<^verbatim>\<open>GetRegion\<close> is the point
  lookup by region id; \<^verbatim>\<open>GetOverlaps\<close> answers the cached regions whose range
  intersects the given one; \<^verbatim>\<open>PutRegion\<close> files the region under its id and
  evicts, and returns, the regions whose range intersects its range and whose
  (version, conf_ver) is strictly less, read lexicographically (sections 4.1 and 8).
\<close>

definition before_end :: "8 word list \<Rightarrow> 8 word list \<Rightarrow> bool" where
  "before_end k e = (e = [] \<or> key_less k e)"

definition overlaps :: "RegionInfo \<Rightarrow> RegionInfo \<Rightarrow> bool" where
  "overlaps a b =
     (before_end (region_StartKey (ri_meta a)) (region_EndKey (ri_meta b)) \<and>
      before_end (region_StartKey (ri_meta b)) (region_EndKey (ri_meta a)))"

definition epoch_less :: "RegionInfo \<Rightarrow> RegionInfo \<Rightarrow> bool" where
  "epoch_less a b =
     (GetVersion a < GetVersion b \<or> (GetVersion a = GetVersion b \<and> GetConfVer a < GetConfVer b))"

definition GetRegion :: "RaftCluster \<Rightarrow> uint64 \<Rightarrow> RegionInfo option" where
  "GetRegion c regionID = find (\<lambda>r. GetRegionID r = regionID) (rc_regions c)"

definition GetOverlaps :: "RaftCluster \<Rightarrow> RegionInfo \<Rightarrow> RegionInfo list" where
  "GetOverlaps c region = filter (\<lambda>x. overlaps x region) (rc_regions c)"

definition evictedBy :: "RegionInfo \<Rightarrow> RegionInfo \<Rightarrow> bool" where
  "evictedBy region x =
     (GetRegionID x \<noteq> GetRegionID region \<and> overlaps x region \<and> epoch_less x region)"

definition core_PutRegion :: "RegionInfo \<Rightarrow> RaftCluster \<Rightarrow> RaftCluster \<times> RegionInfo list" where
  "core_PutRegion region c =
     (c\<lparr>rc_regions :=
          filter (\<lambda>x. GetRegionID x \<noteq> GetRegionID region \<and> \<not> evictedBy region x) (rc_regions c)
            @ [region]\<rparr>,
      filter (evictedBy region) (rc_regions c))"

text \<open>
  Modelled from the spec: the per-store counters of the region index and
  \<^verbatim>\<open>UpdateStoreStatus\<close> are not part of the sources. The leader and region
  counters of a store are the numbers of cached regions whose leader, respectively some
  peer, is on the store (section 3); the pending counter and the two sizes are counted the
  same way.
\<close>

definition onStore :: "uint64 \<Rightarrow> Peer list \<Rightarrow> bool" where
  "onStore storeID ps = (\<exists>p \<in> set ps. peer_StoreId p = storeID)"

definition leaderOn :: "uint64 \<Rightarrow> RegionInfo \<Rightarrow> bool" where
  "leaderOn storeID r = (case ri_leader r of None \<Rightarrow> False | Some p \<Rightarrow> peer_StoreId p = storeID)"

definition UpdateStoreStatus :: "uint64 \<Rightarrow> int \<Rightarrow> int \<Rightarrow> int \<Rightarrow> int \<Rightarrow> int \<Rightarrow> RaftCluster \<Rightarrow> RaftCluster" where
  "UpdateStoreStatus storeID leaderCount regionCount pendingPeerCount leaderSize regionSize c =
     (case GetStore c storeID of
        None \<Rightarrow> c
      | Some s \<Rightarrow>
          core_PutStore
            (s\<lparr>si_leaderCount := leaderCount, si_regionCount := regionCount,
               si_pendingPeerCount := pendingPeerCount,
               si_leaderSize := leaderSize, si_regionSize := regionSize\<rparr>) c)"

definition updateStoreStatusLocked :: "RaftCluster \<Rightarrow> uint64 \<Rightarrow> RaftCluster" where
  "updateStoreStatusLocked c storeID =
     (let leaderCount = int (length (filter (leaderOn storeID) (rc_regions c)));
          regionCount = int (length (filter (\<lambda>r. onStore storeID (GetPeers r)) (rc_regions c)));
          pendingPeerCount = int (length (filter (\<lambda>r. onStore storeID (ri_pendingPeers r)) (rc_regions c)));
          leaderRegionSize = sum_list (map ri_approximateSize (filter (leaderOn storeID) (rc_regions c)));
          regionSize = sum_list (map ri_approximateSize (filter (\<lambda>r. onStore storeID (GetPeers r)) (rc_regions c)))
      in UpdateStoreStatus storeID leaderCount regionCount pendingPeerCount leaderRegionSize regionSize c)"

subsection \<open>processRegionHeartbeat\<close>

definition defaultChangedRegionsLimit :: nat where
  "defaultChangedRegionsLimit = 10000"

text \<open>The non-blocking send on the bounded channel: dropped when the channel is full.\<close>

definition sendChangedRegion :: "RegionInfo \<Rightarrow> RaftCluster \<Rightarrow> RaftCluster" where
  "sendChangedRegion region c =
     (if length (rc_changedRegions c) < defaultChangedRegionsLimit
      then c\<lparr>rc_changedRegions := rc_changedRegions c @ [region]\<rparr> else c)"

definition collect :: "RegionInfo \<Rightarrow> prepareChecker \<Rightarrow> prepareChecker" where
  "collect region checker =
     (foldl (\<lambda>ch p. ch\<lparr>pc_reactiveRegions :=
                          (pc_reactiveRegions ch)(peer_StoreId p := pc_reactiveRegions ch (peer_StoreId p) + 1)\<rparr>)
        checker (GetPeers region))
     \<lparr>pc_sum := pc_sum checker + 1\<rparr>"

text \<open>The loop over the overlapping regions when no region with the id is cached.\<close>

fun newerOverlap :: "RegionInfo \<Rightarrow> RegionInfo list \<Rightarrow> RegionInfo option" where
  "newerOverlap region [] = None"
| "newerOverlap region (item # items) =
     (if GetVersion region < GetVersion item then Some item else newerOverlap region items)"

text \<open>
  The comparison of the heartbeat with the cached region, once it is known not to be
  stale: the flags \<^verbatim>\<open>saveKV\<close>, \<^verbatim>\<open>saveCache\<close> and \<^verbatim>\<open>isNew\<close>, in this
  order, with the log lines written on the way.
\<close>

definition compareWithOrigin :: "RaftCluster \<Rightarrow> RegionInfo \<Rightarrow> RegionInfo \<Rightarrow> RaftCluster \<times> bool \<times> bool \<times> bool" where
  "compareWithOrigin c region origin =
     (let (c1, saveKV1, saveCache1) =
            (if GetVersion region > GetVersion origin
             then (logf LInfo ''region Version changed'' c, True, True)
             else (c, False, False));
          (c2, saveKV2, saveCache2) =
            (if GetConfVer region > GetConfVer origin
             then (logf LInfo ''region ConfVer changed'' c1, True, True)
             else (c1, saveKV1, saveCache1));
          (c3, saveCache3, isNew3) =
            (if GetLeaderId region \<noteq> GetLeaderId origin
             then (if GetLeaderId origin = 0 then (c2, True, True)
                   else (logf LInfo ''leader changed'' c2, True, False))
             else (c2, saveCache2, False));
          saveCache4 =
            (if length (ri_downPeers region) > 0 \<or> length (ri_pendingPeers region) > 0
             then True else saveCache3);
          saveCache5 =
            (if length (ri_downPeers origin) > 0 \<or> length (ri_pendingPeers origin) > 0
             then True else saveCache4);
          (saveKV6, saveCache6) =
            (if length (GetPeers region) \<noteq> length (GetPeers origin)
             then (True, True) else (saveKV2, saveCache5));
          saveCache7 =
            (if ri_approximateSize region \<noteq> ri_approximateSize origin \<or>
                ri_approximateKeys region \<noteq> ri_approximateKeys origin
             then True else saveCache6);
          saveCache8 =
            (if ri_writtenBytes region \<noteq> ri_writtenBytes origin \<or>
                ri_readBytes region \<noteq> ri_readBytes origin \<or>
                ri_writtenKeys region \<noteq> ri_writtenKeys origin \<or>
                ri_readKeys region \<noteq> ri_readKeys origin
             then True else saveCache7)
      in (c3, saveKV6, saveCache8, isNew3))"

text \<open>The write of the region meta, when \<^verbatim>\<open>saveKV\<close> is set and there is a store.\<close>

definition saveRegionKV :: "Env \<Rightarrow> RegionInfo \<Rightarrow> RaftCluster \<Rightarrow> RaftCluster" where
  "saveRegionKV env region c =
     (case rc_storage c of
        None \<Rightarrow> c
      | Some kv \<Rightarrow>
          sendChangedRegion region
            (case SaveRegion_err env (ri_meta region) of
               Some msg \<Rightarrow> logf LError ''failed to save region to storage'' c
             | None \<Rightarrow>
                 c\<lparr>rc_storage :=
                     Some (kv\<lparr>kv_Regions := (kv_Regions kv)(GetRegionID region \<mapsto> ri_meta region)\<rparr>)\<rparr>))"

definition deleteRegionKV :: "Env \<Rightarrow> RaftCluster \<Rightarrow> RegionInfo \<Rightarrow> RaftCluster" where
  "deleteRegionKV env c item =
     (case rc_storage c of
        None \<Rightarrow> c
      | Some kv \<Rightarrow>
          (case DeleteRegion_err env (ri_meta item) of
             Some msg \<Rightarrow> logf LError ''failed to delete region from storage'' c
           | None \<Rightarrow>
               c\<lparr>rc_storage := Some (kv\<lparr>kv_Regions := (kv_Regions kv)(GetRegionID item := None)\<rparr>)\<rparr>))"

definition clearDefunctRegion :: "RaftCluster \<Rightarrow> RegionInfo \<Rightarrow> RaftCluster" where
  "clearDefunctRegion c item =
     (let c1 = (case rc_regionStats c of
                  None \<Rightarrow> c
                | Some rs \<Rightarrow> c\<lparr>rc_regionStats := Some (rs @ [RS_ClearDefunctRegion (GetRegionID item)])\<rparr>)
      in c1\<lparr>rc_labelLevelStats :=
              rc_labelLevelStats c1 @
                [LS_ClearDefunctRegion (GetRegionID item) (opt_LocationLabels (rc_opt c1))]\<rparr>)"

definition takeRegionStoresLocked :: "RaftCluster \<Rightarrow> RegionInfo \<Rightarrow> StoreInfo list" where
  "takeRegionStoresLocked c region =
     List.map_filter (\<lambda>p. GetStore c (peer_StoreId p)) (GetPeers region)"

text \<open>The branch \<^verbatim>\<open>if saveCache\<close> under the write lock.\<close>

definition updateCache :: "Env \<Rightarrow> RegionInfo \<Rightarrow> RegionInfo option \<Rightarrow> RaftCluster \<Rightarrow> RaftCluster" where
  "updateCache env region origin c =
     (let (c1, overlaps) = core_PutRegion region c;
          c2 = foldl (deleteRegionKV env) c1 overlaps;
          c3 = foldl clearDefunctRegion c2 overlaps;
          c4 = (case origin of
                  None \<Rightarrow> c3
                | Some orig \<Rightarrow> foldl updateStoreStatusLocked c3 (map peer_StoreId (GetPeers orig)))
      in foldl updateStoreStatusLocked c4 (map peer_StoreId (GetPeers region)))"

text \<open>
  The second half of \<^verbatim>\<open>processRegionHeartbeat\<close>, from the write of the region
  meta on, given the three flags.
\<close>

definition applyHeartbeat :: "Env \<Rightarrow> RaftCluster \<Rightarrow> RegionInfo \<Rightarrow> RegionInfo option \<Rightarrow>
    HotPeerStat list \<Rightarrow> HotPeerStat list \<Rightarrow> bool \<times> bool \<times> bool \<Rightarrow> RaftCluster \<times> error option" where
  "applyHeartbeat env c region origin writeItems readItems flags =
     (case flags of (saveKV, saveCache, isNew) \<Rightarrow>
        (let c1 = (if saveKV then saveRegionKV env region c else c) in
         if length writeItems = 0 \<and> length readItems = 0 \<and> \<not> saveCache \<and> \<not> isNew
         then (c1, None)
         else
           (let c2 = (if isNew
                      then c1\<lparr>rc_prepareChecker := collect region (rc_prepareChecker c1)\<rparr>
                      else c1);
                c3 = (if saveCache then updateCache env region origin c2 else c2);
                c4 = (case rc_regionStats c3 of
                        None \<Rightarrow> c3
                      | Some rs \<Rightarrow>
                          c3\<lparr>rc_regionStats :=
                               Some (rs @ [RS_Observe region (takeRegionStoresLocked c3 region)])\<rparr>);
                c5 = c4\<lparr>rc_hotSpotCache := rc_hotSpotCache c4 @ writeItems\<rparr>;
                c6 = c5\<lparr>rc_hotSpotCache := rc_hotSpotCache c5 @ readItems\<rparr>
            in (c6, None))))"

definition processRegionHeartbeat :: "Env \<Rightarrow> RaftCluster \<Rightarrow> RegionInfo \<Rightarrow> RaftCluster \<times> error option" where
  "processRegionHeartbeat env c region =
     (let origin = GetRegion c (GetRegionID region) in
      case (case origin of
              None \<Rightarrow> newerOverlap region (GetOverlaps c region)
            | Some _ \<Rightarrow> None) of
        Some item \<Rightarrow> (c, Some (ErrRegionIsStale (ri_meta region) (ri_meta item)))
      | None \<Rightarrow>
          (let writeItems = CheckWriteStatus env (rc_hotSpotCache c) region;
               readItems = CheckReadStatus env (rc_hotSpotCache c) region
           in case origin of
                None \<Rightarrow>
                  applyHeartbeat env (logf LDebug ''insert new region'' c) region origin
                    writeItems readItems (True, True, True)
              | Some orig \<Rightarrow>
                  if GetVersion region < GetVersion orig \<or> GetConfVer region < GetConfVer orig
                  then (c, Some (ErrRegionIsStale (ri_meta region) (ri_meta orig)))
                  else (case compareWithOrigin c region orig of
                          (c1, flags) \<Rightarrow>
                            applyHeartbeat env c1 region origin writeItems readItems flags)))"

section \<open>Schedule configuration\<close>

text \<open>
  \<^verbatim>\<open>ScheduleConfig\<close> with all its fields. A \<^verbatim>\<open>typeutil.Duration\<close> is
  read as its nanoseconds. An error of the configuration package is its message.
\<close>

record SchedulerConfig =
  sc_Type :: string
  sc_Args :: "string list"
  sc_Disable :: bool
  sc_ArgsPayload :: string

type_synonym SchedulerConfigs = "SchedulerConfig list"

record ScheduleConfig =
  MaxSnapshotCount :: uint64
  MaxPendingPeerCount :: uint64
  MaxMergeRegionSize :: uint64
  MaxMergeRegionKeys :: uint64
  SplitMergeInterval :: Duration
  EnableOneWayMerge :: bool
  PatrolRegionInterval :: Duration
  MaxStoreDownTime :: Duration
  MaxColdDataTime :: Duration
  LeaderScheduleLimit :: uint64
  LeaderScheduleStrategy :: string
  RegionScheduleLimit :: uint64
  ReplicaScheduleLimit :: uint64
  MergeScheduleLimit :: uint64
  HotRegionScheduleLimit :: uint64
  HotRegionCacheHitsThreshold :: uint64
  StoreBalanceRate :: float64
  TolerantSizeRatio :: float64
  LowSpaceRatio :: float64
  HighSpaceRatio :: float64
  SchedulerMaxWaitingOperator :: uint64
  DisableLearner :: bool
  DisableRemoveDownReplica :: bool
  DisableReplaceOfflineReplica :: bool
  DisableMakeUpReplica :: bool
  DisableRemoveExtraReplica :: bool
  DisableLocationReplacement :: bool
  DisableNamespaceRelocation :: bool
  Schedulers :: SchedulerConfigs
  SchedulersPayload :: "(string \<times> string) list"

text \<open>
  The defaults. The constants \<^verbatim>\<open>0.8\<close> and \<^verbatim>\<open>0.6\<close> are the float64 values
  nearest to these decimals.
\<close>

definition second :: Duration where
  "second = 1000000000"

definition defaultMaxSnapshotCount :: uint64 where "defaultMaxSnapshotCount = 3"
definition defaultMaxPendingPeerCount :: uint64 where "defaultMaxPendingPeerCount = 16"
definition defaultMaxMergeRegionSize :: uint64 where "defaultMaxMergeRegionSize = 20"
definition defaultMaxMergeRegionKeys :: uint64 where "defaultMaxMergeRegionKeys = 200000"
definition defaultSplitMergeInterval :: Duration where "defaultSplitMergeInterval = 3600 * second"
definition defaultPatrolRegionInterval :: Duration where "defaultPatrolRegionInterval = 100 * 1000000"
definition defaultMaxStoreDownTime :: Duration where "defaultMaxStoreDownTime = 30 * 60 * second"
definition defaultMaxColdDataTime :: Duration where "defaultMaxColdDataTime = 30 * 24 * 3600 * second"
definition defaultLeaderScheduleLimit :: uint64 where "defaultLeaderScheduleLimit = 4"
definition defaultRegionScheduleLimit :: uint64 where "defaultRegionScheduleLimit = 2048"
definition defaultReplicaScheduleLimit :: uint64 where "defaultReplicaScheduleLimit = 64"
definition defaultMergeScheduleLimit :: uint64 where "defaultMergeScheduleLimit = 8"
definition defaultHotRegionScheduleLimit :: uint64 where "defaultHotRegionScheduleLimit = 4"
definition defaultStoreBalanceRate :: float64 where "defaultStoreBalanceRate = Finite 15"
definition defaultTolerantSizeRatio :: float64 where "defaultTolerantSizeRatio = Finite 0"
definition defaultLowSpaceRatio :: float64 where "defaultLowSpaceRatio = Finite (3602879701896397 / 4503599627370496)"
definition defaultHighSpaceRatio :: float64 where "defaultHighSpaceRatio = Finite (5404319552844595 / 9007199254740992)"
definition defaultHotRegionCacheHitsThreshold :: uint64 where "defaultHotRegionCacheHitsThreshold = 3"
definition defaultSchedulerMaxWaitingOperator :: uint64 where "defaultSchedulerMaxWaitingOperator = 3"
definition defaultLeaderScheduleStrategy :: string where "defaultLeaderScheduleStrategy = ''count''"

definition defaultSchedulers :: SchedulerConfigs where
  "defaultSchedulers =
     map (\<lambda>t. \<lparr>sc_Type = t, sc_Args = [], sc_Disable = False, sc_ArgsPayload = []\<rparr>)
       [''balance-region'', ''balance-leader'', ''hot-region'', ''label'', ''separate-cold-hot'']"

definition adjustString :: "string \<Rightarrow> string \<Rightarrow> string" where
  "adjustString v defValue = (if length v = 0 then defValue else v)"

definition adjustUint64 :: "uint64 \<Rightarrow> uint64 \<Rightarrow> uint64" where
  "adjustUint64 v defValue = (if v = 0 then defValue else v)"

definition adjustFloat64 :: "float64 \<Rightarrow> float64 \<Rightarrow> float64" where
  "adjustFloat64 v defValue = (if float_eq v (Finite 0) then defValue else v)"

definition adjustDuration :: "Duration \<Rightarrow> Duration \<Rightarrow> Duration" where
  "adjustDuration v defValue = (if v = 0 then defValue else v)"

definition adjustSchedulers :: "SchedulerConfigs \<Rightarrow> SchedulerConfigs \<Rightarrow> SchedulerConfigs" where
  "adjustSchedulers v defValue = (if length v = 0 then defValue else v)"

text \<open>The loop of \<^verbatim>\<open>Validate\<close> over the configured schedulers.\<close>

fun validateSchedulers :: "(string \<Rightarrow> bool) \<Rightarrow> SchedulerConfigs \<Rightarrow> string option" where
  "validateSchedulers IsSchedulerRegistered [] = None"
| "validateSchedulers IsSchedulerRegistered (scheduleConfig # rest) =
     (if \<not> IsSchedulerRegistered (sc_Type scheduleConfig)
      then Some (''create func of '' @ sc_Type scheduleConfig @ '' is not registered, maybe misspelled'')
      else validateSchedulers IsSchedulerRegistered rest)"

text \<open>
  \<^verbatim>\<open>ScheduleConfig.Validate\<close>. The registry of scheduler factories,
  \<^verbatim>\<open>schedule.IsSchedulerRegistered\<close>, is outside the sources and is a parameter.
\<close>

definition Validate :: "(string \<Rightarrow> bool) \<Rightarrow> ScheduleConfig \<Rightarrow> string option" where
  "Validate IsSchedulerRegistered c =
     (if float_lt (TolerantSizeRatio c) (Finite 0)
        then Some ''tolerant-size-ratio should be nonnegative''
      else if float_lt (LowSpaceRatio c) (Finite 0) \<or> float_gt (LowSpaceRatio c) (Finite 1)
        then Some ''low-space-ratio should between 0 and 1''
      else if float_lt (HighSpaceRatio c) (Finite 0) \<or> float_gt (HighSpaceRatio c) (Finite 1)
        then Some ''high-space-ratio should between 0 and 1''
      else if float_le (LowSpaceRatio c) (HighSpaceRatio c)
        then Some ''low-space-ratio should be larger than high-space-ratio''
      else validateSchedulers IsSchedulerRegistered (Schedulers c))"

text \<open>
  \<^verbatim>\<open>ScheduleConfig.adjust\<close>, run when the configuration is loaded: it fills the
  defaults and ends with \<^verbatim>\<open>Validate\<close>. \<open>IsDefined\<close> is the predicate of the
  TOML metadata that tells which keys the file sets.
\<close>

definition adjust :: "(string \<Rightarrow> bool) \<Rightarrow> (string \<Rightarrow> bool) \<Rightarrow> ScheduleConfig \<Rightarrow> ScheduleConfig \<times> string option" where
  "adjust IsDefined IsSchedulerRegistered c =
     (let c1 = c\<lparr>
            MaxSnapshotCount :=
              (if \<not> IsDefined ''max-snapshot-count''
               then adjustUint64 (MaxSnapshotCount c) defaultMaxSnapshotCount else MaxSnapshotCount c),
            MaxPendingPeerCount :=
              (if \<not> IsDefined ''max-pending-peer-count''
               then adjustUint64 (MaxPendingPeerCount c) defaultMaxPendingPeerCount else MaxPendingPeerCount c),
            MaxMergeRegionSize :=
              (if \<not> IsDefined ''max-merge-region-size''
               then adjustUint64 (MaxMergeRegionSize c) defaultMaxMergeRegionSize else MaxMergeRegionSize c),
            MaxMergeRegionKeys :=
              (if \<not> IsDefined ''max-merge-region-keys''
               then adjustUint64 (MaxMergeRegionKeys c) defaultMaxMergeRegionKeys else MaxMergeRegionKeys c),
            SplitMergeInterval := adjustDuration (SplitMergeInterval c) defaultSplitMergeInterval,
            PatrolRegionInterval := adjustDuration (PatrolRegionInterval c) defaultPatrolRegionInterval,
            MaxStoreDownTime := adjustDuration (MaxStoreDownTime c) defaultMaxStoreDownTime,
            MaxColdDataTime := adjustDuration (MaxColdDataTime c) defaultMaxColdDataTime,
            LeaderScheduleLimit :=
              (if \<not> IsDefined ''leader-schedule-limit''
               then adjustUint64 (LeaderScheduleLimit c) defaultLeaderScheduleLimit else LeaderScheduleLimit c),
            RegionScheduleLimit :=
              (if \<not> IsDefined ''region-schedule-limit''
               then adjustUint64 (RegionScheduleLimit c) defaultRegionScheduleLimit else RegionScheduleLimit c),
            ReplicaScheduleLimit :=
              (if \<not> IsDefined ''replica-schedule-limit''
               then adjustUint64 (ReplicaScheduleLimit c) defaultReplicaScheduleLimit else ReplicaScheduleLimit c),
            MergeScheduleLimit :=
              (if \<not> IsDefined ''merge-schedule-limit''
               then adjustUint64 (MergeScheduleLimit c) defaultMergeScheduleLimit else MergeScheduleLimit c),
            HotRegionScheduleLimit :=
              (if \<not> IsDefined ''hot-region-schedule-limit''
               then adjustUint64 (HotRegionScheduleLimit c) defaultHotRegionScheduleLimit
               else HotRegionScheduleLimit c),
            HotRegionCacheHitsThreshold :=
              (if \<not> IsDefined ''hot-region-cache-hits-threshold''
               then adjustUint64 (HotRegionCacheHitsThreshold c) defaultHotRegionCacheHitsThreshold
               else HotRegionCacheHitsThreshold c),
            TolerantSizeRatio :=
              (if \<not> IsDefined ''tolerant-size-ratio''
               then adjustFloat64 (TolerantSizeRatio c) defaultTolerantSizeRatio else TolerantSizeRatio c),
            SchedulerMaxWaitingOperator :=
              (if \<not> IsDefined ''scheduler-max-waiting-operator''
               then adjustUint64 (SchedulerMaxWaitingOperator c) defaultSchedulerMaxWaitingOperator
               else SchedulerMaxWaitingOperator c),
            LeaderScheduleStrategy :=
              (if \<not> IsDefined ''leader-schedule-strategy''
               then adjustString (LeaderScheduleStrategy c) defaultLeaderScheduleStrategy
               else LeaderScheduleStrategy c),
            StoreBalanceRate := adjustFloat64 (StoreBalanceRate c) defaultStoreBalanceRate,
            LowSpaceRatio := adjustFloat64 (LowSpaceRatio c) defaultLowSpaceRatio,
            HighSpaceRatio := adjustFloat64 (HighSpaceRatio c) defaultHighSpaceRatio,
            Schedulers := adjustSchedulers (Schedulers c) defaultSchedulers\<rparr>
      in (c1, Validate IsSchedulerRegistered c1))"

section \<open>Filters\<close>

text \<open>
  A \<^verbatim>\<open>Filter\<close> is a value with the four methods of the interface. The options
  argument of \<^verbatim>\<open>Source\<close> and \<^verbatim>\<open>Target\<close> is left out: none of the filters
  built by the balance-region scheduler reads it.
\<close>

record Filter =
  flt_Scope :: string
  flt_Type :: string
  flt_Source :: "StoreInfo \<Rightarrow> bool"
  flt_Target :: "StoreInfo \<Rightarrow> bool"

text \<open>\<^verbatim>\<open>excludedFilter\<close>: the two id sets are kept as lists of their members.\<close>

definition NewExcludedFilter :: "string \<Rightarrow> uint64 list \<Rightarrow> uint64 list \<Rightarrow> Filter" where
  "NewExcludedFilter scope sources targets =
     \<lparr> flt_Scope = scope, flt_Type = ''exclude-filter'',
       flt_Source = (\<lambda>store. GetID store \<in> set sources),
       flt_Target = (\<lambda>store. GetID store \<in> set targets) \<rparr>"

text \<open>\<^verbatim>\<open>BlacklistStoreFilter\<close>, with the flags \<^verbatim>\<open>1 << iota\<close>.\<close>

unbundle bit_operations_syntax

definition BlacklistSource :: int where
  "BlacklistSource = 1"

definition BlacklistTarget :: int where
  "BlacklistTarget = 2"

record BlacklistStoreFilter =
  bl_scope :: string
  bl_blacklist :: "uint64 list"
  bl_flag :: int

definition NewBlacklistStoreFilter :: "string \<Rightarrow> int \<Rightarrow> BlacklistStoreFilter" where
  "NewBlacklistStoreFilter scope typ = \<lparr> bl_scope = scope, bl_blacklist = [], bl_flag = typ \<rparr>"

definition Blacklist_Add :: "BlacklistStoreFilter \<Rightarrow> uint64 \<Rightarrow> BlacklistStoreFilter" where
  "Blacklist_Add f storeID = f\<lparr>bl_blacklist := bl_blacklist f @ [storeID]\<rparr>"

definition Blacklist_filter :: "BlacklistStoreFilter \<Rightarrow> StoreInfo \<Rightarrow> bool" where
  "Blacklist_filter f store = (GetID store \<in> set (bl_blacklist f))"

definition Blacklist_Source :: "BlacklistStoreFilter \<Rightarrow> StoreInfo \<Rightarrow> bool" where
  "Blacklist_Source f store =
     (if (bl_flag f AND BlacklistSource) \<noteq> BlacklistSource then False
      else Blacklist_filter f store)"

definition Blacklist_Target :: "BlacklistStoreFilter \<Rightarrow> StoreInfo \<Rightarrow> bool" where
  "Blacklist_Target f store =
     (if (bl_flag f AND BlacklistTarget) \<noteq> BlacklistTarget then False
      else Blacklist_filter f store)"

definition BlacklistFilter :: "BlacklistStoreFilter \<Rightarrow> Filter" where
  "BlacklistFilter f =
     \<lparr> flt_Scope = bl_scope f, flt_Type = ''blacklist-store-filter'',
       flt_Source = Blacklist_Source f, flt_Target = Blacklist_Target f \<rparr>"

section \<open>The balance-region scheduler\<close>

text \<open>
  The scheduler sees the cluster through the interface \<^verbatim>\<open>opt.Cluster\<close>, a record
  of the methods it calls. The three random picks and the peer allocation answer
  differently from call to call; they take the number of such calls made before. The
  selector, the replica checker, \<^verbatim>\<open>shouldBalance\<close> with the operator influence,
  the operator constructor, \<^verbatim>\<open>core.DistinctScore\<close> and the clock are outside the
  sources and are parameters; the clock answers its \<open>n\<close>-th reading. The log lines
  of the scheduler are not modelled.
\<close>

datatype panic = NilPointerDereference | MakeSliceCapOutOfRange

text \<open>Modelled from the spec: an operator (section 3).\<close>

datatype OpStep =
    AddPeer uint64 uint64
  | AddLearner uint64 uint64
  | PromoteLearner uint64 uint64
  | RemovePeer uint64
  | TransferLeader uint64 uint64
  | SplitRegion
  | MergeRegion

datatype OpKind = OpLeader | OpRegion | OpBalance | OpAdmin | OpMerge | OpHot

record Operator =
  op_Desc :: string
  op_RegionID :: uint64
  op_Kind :: "OpKind list"
  op_Steps :: "OpStep list"

record Cluster =
  cl_GetStores :: "StoreInfo list"
  cl_GetStore :: "uint64 \<Rightarrow> StoreInfo option"
  cl_RandPendingRegion :: "nat \<Rightarrow> uint64 \<Rightarrow> RegionInfo option"
  cl_RandFollowerRegion :: "nat \<Rightarrow> uint64 \<Rightarrow> RegionInfo option"
  cl_RandLeaderRegion :: "nat \<Rightarrow> uint64 \<Rightarrow> RegionInfo option"
  cl_GetMaxReplicas :: int
  cl_IsRegionHot :: "RegionInfo \<Rightarrow> bool"
  cl_GetRegionStores :: "RegionInfo \<Rightarrow> StoreInfo list"
  cl_GetLocationLabels :: "string list"
  cl_AllocPeer :: "nat \<Rightarrow> uint64 \<Rightarrow> Peer option"

record Deps =
  clock :: "nat \<Rightarrow> Time"
  SelectSource :: "Cluster \<Rightarrow> StoreInfo option list \<Rightarrow> Filter list \<Rightarrow> StoreInfo option"
  SelectBestReplacementStore :: "Cluster \<Rightarrow> RegionInfo \<Rightarrow> Peer option \<Rightarrow> Filter list \<Rightarrow> uint64"
  shouldBalance :: "Cluster \<Rightarrow> StoreInfo \<Rightarrow> StoreInfo \<Rightarrow> RegionInfo \<Rightarrow> bool"
  CreateMovePeerOperator :: "string \<Rightarrow> RegionInfo \<Rightarrow> OpKind \<Rightarrow> uint64 \<Rightarrow> uint64 \<Rightarrow> uint64 \<Rightarrow> Operator option"
  DistinctScore :: "string list \<Rightarrow> StoreInfo list \<Rightarrow> StoreInfo \<Rightarrow> float64"

definition balanceRegionRetryLimit :: nat where
  "balanceRegionRetryLimit = 10"

definition hitsStoreTTL :: Duration where
  "hitsStoreTTL = 5 * (60 * second)"

definition hitsStoreCountThreshold :: "64 word" where
  "hitsStoreCountThreshold = 30 * of_nat balanceRegionRetryLimit"

definition balanceRegionName :: string where
  "balanceRegionName = ''balance-region-scheduler''"

subsection \<open>The hit counter\<close>

text \<open>
  The \<^verbatim>\<open>count\<close> of a record and the \<^verbatim>\<open>threshold\<close> are Go
  \<^verbatim>\<open>int\<close>s: 64-bit words, incremented with wrap-around and compared as signed
  numbers.
\<close>

record hit_record =
  hr_lastTime :: Time
  hr_count :: "64 word"

record hitsStoreBuilder =
  h_hits :: "string \<rightharpoonup> hit_record"
  h_ttl :: Duration
  h_threshold :: "64 word"

text \<open>
  The scheduler, reduced to the state that \<^verbatim>\<open>Schedule\<close> changes: the hit counter.
  With it travel the numbers of clock readings and of random picks made so far.
\<close>

record Sched =
  hitsCounter :: hitsStoreBuilder
  clockReads :: nat
  draws :: nat

definition newHitsStoreBuilder :: "Duration \<Rightarrow> 64 word \<Rightarrow> hitsStoreBuilder" where
  "newHitsStoreBuilder ttl threshold = \<lparr> h_hits = Map.empty, h_ttl = ttl, h_threshold = threshold \<rparr>"

definition newBalanceRegionScheduler :: Sched where
  "newBalanceRegionScheduler =
     \<lparr> hitsCounter = newHitsStoreBuilder hitsStoreTTL hitsStoreCountThreshold,
       clockReads = 0, draws = 0 \<rparr>"

definition time_Now :: "Deps \<Rightarrow> Sched \<Rightarrow> Sched \<times> Time" where
  "time_Now deps st = (st\<lparr>clockReads := clockReads st + 1\<rparr>, clock deps (clockReads st))"

text \<open>
  \<^verbatim>\<open>Time.Sub\<close>: the difference of two points in time as a
  \<^verbatim>\<open>Duration\<close>, an \<^verbatim>\<open>int64\<close> of nanoseconds; a difference outside its
  range is answered by the largest or the smallest duration.
\<close>

definition maxDuration :: Duration where
  "maxDuration = 2 ^ 63 - 1"

definition minDuration :: Duration where
  "minDuration = - (2 ^ 63)"

definition Sub :: "Time \<Rightarrow> Time \<Rightarrow> Duration" where
  "Sub t u =
     (if t - u > maxDuration then maxDuration
      else if t - u < minDuration then minDuration
      else t - u)"

text \<open>\<^verbatim>\<open>time.Since(t)\<close> is \<^verbatim>\<open>time.Now().Sub(t)\<close>.\<close>

definition time_Since :: "Deps \<Rightarrow> Sched \<Rightarrow> Time \<Rightarrow> Sched \<times> Duration" where
  "time_Since deps st t = (st\<lparr>clockReads := clockReads st + 1\<rparr>, Sub (clock deps (clockReads st)) t)"

text \<open>\<^verbatim>\<open>fmt.Sprintf("%d", n)\<close> on an unsigned number.\<close>

definition digit :: "nat \<Rightarrow> char" where
  "digit n = char_of (48 + n)"

function decimal :: "nat \<Rightarrow> string" where
  "decimal n = (if n < 10 then [digit n] else decimal (n div 10) @ [digit (n mod 10)])"
  by pat_completeness auto
termination
  by (relation "measure id") auto

definition getKey :: "StoreInfo option \<Rightarrow> StoreInfo option \<Rightarrow> string" where
  "getKey source target =
     (case source of
        None \<Rightarrow> []
      | Some s \<Rightarrow>
          (let key = ''s'' @ decimal (unat (GetID s)) in
           case target of
             None \<Rightarrow> key
           | Some t \<Rightarrow> key @ ''->t'' @ decimal (unat (GetID t))))"

definition setHits :: "(string \<rightharpoonup> hit_record) \<Rightarrow> Sched \<Rightarrow> Sched" where
  "setHits m st = st\<lparr>hitsCounter := (hitsCounter st)\<lparr>h_hits := m\<rparr>\<rparr>"

definition hits_filter :: "Deps \<Rightarrow> Sched \<Rightarrow> StoreInfo option \<Rightarrow> StoreInfo option \<Rightarrow> Sched \<times> bool" where
  "hits_filter deps st source target =
     (let key = getKey source target in
      if key = [] then (st, False)
      else case h_hits (hitsCounter st) key of
        None \<Rightarrow> (st, False)
      | Some item \<Rightarrow>
          (let (st1, since1) = time_Since deps st (hr_lastTime item);
               st2 = (if since1 > h_ttl (hitsCounter st1)
                      then setHits ((h_hits (hitsCounter st1))(key := None)) st1 else st1);
               (st3, since2) = time_Since deps st2 (hr_lastTime item)
           in if since2 \<le> h_ttl (hitsCounter st3) \<and>
                 sint (hr_count item) \<ge> sint (h_threshold (hitsCounter st3))
              then (st3, True) else (st3, False)))"

definition hits_remove :: "Sched \<Rightarrow> StoreInfo option \<Rightarrow> StoreInfo option \<Rightarrow> Sched" where
  "hits_remove st source target =
     (let key = getKey source target in
      if h_hits (hitsCounter st) key \<noteq> None \<and> key \<noteq> []
      then setHits ((h_hits (hitsCounter st))(key := None)) st else st)"

definition hits_put :: "Deps \<Rightarrow> Sched \<Rightarrow> StoreInfo option \<Rightarrow> StoreInfo option \<Rightarrow> Sched" where
  "hits_put deps st source target =
     (let key = getKey source target in
      if key = [] then st
      else case h_hits (hitsCounter st) key of
        Some item \<Rightarrow>
          (let (st1, since) = time_Since deps st (hr_lastTime item);
               item1 = (if since \<ge> h_ttl (hitsCounter st1) then item\<lparr>hr_count := 0\<rparr>
                        else item\<lparr>hr_count := hr_count item + 1\<rparr>);
               (st2, now) = time_Now deps st1;
               item2 = item1\<lparr>hr_lastTime := now\<rparr>
           in setHits ((h_hits (hitsCounter st2))(key \<mapsto> item2)) st2)
      | None \<Rightarrow>
          (let (st1, now) = time_Now deps st;
               item = \<lparr> hr_lastTime = now, hr_count = 0 \<rparr>
           in setHits ((h_hits (hitsCounter st1))(key \<mapsto> item)) st1))"

definition buildSourceFilter :: "Deps \<Rightarrow> string \<Rightarrow> Cluster \<Rightarrow> Sched \<Rightarrow> Sched \<times> Filter" where
  "buildSourceFilter deps scope cluster st =
     (let (st1, f) =
            foldl (\<lambda>(st0, f0) source.
                     (let (st', hit) = hits_filter deps st0 (Some source) None
                      in if hit then (st', Blacklist_Add f0 (GetID source)) else (st', f0)))
              (st, NewBlacklistStoreFilter scope BlacklistSource) (cl_GetStores cluster)
      in (st1, BlacklistFilter f))"

definition buildTargetFilter :: "Deps \<Rightarrow> string \<Rightarrow> Cluster \<Rightarrow> StoreInfo option \<Rightarrow> Sched \<Rightarrow> Sched \<times> Filter" where
  "buildTargetFilter deps scope cluster source st =
     (let (st1, f) =
            foldl (\<lambda>(st0, f0) target.
                     (let (st', hit) = hits_filter deps st0 source (Some target)
                      in if hit then (st', Blacklist_Add f0 (GetID target)) else (st', f0)))
              (st, NewBlacklistStoreFilter scope BlacklistTarget) (cl_GetStores cluster)
      in (st1, BlacklistFilter f))"

subsection \<open>transferPeer\<close>

text \<open>
  \<^verbatim>\<open>NewDistinctScoreFilter\<close>. The slice is made with capacity
  \<^verbatim>\<open>len(stores)-1\<close>, which panics for an empty list; the loop reads the id of
  \<^verbatim>\<open>source\<close>, a nil-pointer dereference when there is no source store
  (\<^verbatim>\<open>GetID\<close> reads the meta of its receiver).
\<close>

definition NewDistinctScoreFilter :: "Deps \<Rightarrow> string \<Rightarrow> string list \<Rightarrow> StoreInfo list \<Rightarrow> StoreInfo option \<Rightarrow> panic + Filter" where
  "NewDistinctScoreFilter deps scope labels stores source =
     (if length stores = 0 then Inl MakeSliceCapOutOfRange
      else case source of
        None \<Rightarrow> Inl NilPointerDereference
      | Some src \<Rightarrow>
          (let newStores = filter (\<lambda>s. GetID s \<noteq> GetID src) stores;
               safeScore = DistinctScore deps labels newStores src
           in Inr \<lparr> flt_Scope = scope, flt_Type = ''distinct-filter'',
                    flt_Source = (\<lambda>store. False),
                    flt_Target = (\<lambda>store. float_lt (DistinctScore deps labels newStores store) safeScore) \<rparr>))"

text \<open>
  The loop that collects the ids of the excluded stores; it reads the id of every entry,
  a nil-pointer dereference on a nil entry.
\<close>

fun excludeStoreIDs :: "StoreInfo option list \<Rightarrow> panic + uint64 list" where
  "excludeStoreIDs [] = Inr []"
| "excludeStoreIDs (None # rest) = Inl NilPointerDereference"
| "excludeStoreIDs (Some store # rest) =
     (case excludeStoreIDs rest of Inl p \<Rightarrow> Inl p | Inr ids \<Rightarrow> Inr (GetID store # ids))"

text \<open>Modelled from the spec: the peer of a region on a store; there is at most one.\<close>

definition GetStorePeer :: "RegionInfo \<Rightarrow> uint64 \<Rightarrow> Peer option" where
  "GetStorePeer region storeID = find (\<lambda>p. peer_StoreId p = storeID) (GetPeers region)"

text \<open>\<^verbatim>\<open>oldPeer.GetStoreId()\<close>: the generated getter answers 0 on a nil peer.\<close>

definition Peer_GetStoreId :: "Peer option \<Rightarrow> uint64" where
  "Peer_GetStoreId p = (case p of None \<Rightarrow> 0 | Some q \<Rightarrow> peer_StoreId q)"

definition transferPeer :: "Deps \<Rightarrow> Cluster \<Rightarrow> RegionInfo \<Rightarrow> Peer option \<Rightarrow> StoreInfo option list \<Rightarrow>
    Sched \<Rightarrow> Sched \<times> (panic + Operator option)" where
  "transferPeer deps cluster region oldPeer excludedStores st =
     (let stores = cl_GetRegionStores cluster region;
          sourceStoreID = Peer_GetStoreId oldPeer;
          source = cl_GetStore cluster sourceStoreID
      in case NewDistinctScoreFilter deps balanceRegionName (cl_GetLocationLabels cluster) stores source of
           Inl p \<Rightarrow> (st, Inl p)
         | Inr scoreGuard \<Rightarrow>
            (let (st1, hitsFilter) = buildTargetFilter deps balanceRegionName cluster source st
             in case excludeStoreIDs excludedStores of
                  Inl p \<Rightarrow> (st1, Inl p)
                | Inr ids \<Rightarrow>
                   (let coldHotFilter = NewExcludedFilter balanceRegionName ids ids;
                        storeID = SelectBestReplacementStore deps cluster region oldPeer
                                    [scoreGuard, hitsFilter, coldHotFilter]
                    in if storeID = 0 then (hits_put deps st1 source None, Inr None)
                       else case (source, cl_GetStore cluster storeID) of
                              (Some src, Some tgt) \<Rightarrow>
                                if \<not> shouldBalance deps cluster src tgt region
                                then (hits_put deps st1 source (Some tgt), Inr None)
                                else (case cl_AllocPeer cluster (draws st1) storeID of
                                        None \<Rightarrow> (st1\<lparr>draws := draws st1 + 1\<rparr>, Inr None)
                                      | Some newPeer \<Rightarrow>
                                          (let st2 = st1\<lparr>draws := draws st1 + 1\<rparr> in
                                           case CreateMovePeerOperator deps ''balance-region'' region OpBalance
                                                  (Peer_GetStoreId oldPeer) (peer_StoreId newPeer) (peer_Id newPeer) of
                                             None \<Rightarrow> (st2, Inr None)
                                           | Some op \<Rightarrow>
                                               (hits_remove (hits_remove st2 source (Some tgt)) source None,
                                                Inr (Some op))))
                            | _ \<Rightarrow> (st1, Inl NilPointerDereference))))"

subsection \<open>scheduleImpl and Schedule\<close>

text \<open>The three picks of a candidate region, by priority.\<close>

definition pickRegion :: "Cluster \<Rightarrow> uint64 \<Rightarrow> Sched \<Rightarrow> Sched \<times> RegionInfo option" where
  "pickRegion cluster sourceID st =
     (case cl_RandPendingRegion cluster (draws st) sourceID of
        Some region \<Rightarrow> (st\<lparr>draws := draws st + 1\<rparr>, Some region)
      | None \<Rightarrow>
          (case cl_RandFollowerRegion cluster (draws st + 1) sourceID of
             Some region \<Rightarrow> (st\<lparr>draws := draws st + 2\<rparr>, Some region)
           | None \<Rightarrow>
               (st\<lparr>draws := draws st + 3\<rparr>, cl_RandLeaderRegion cluster (draws st + 2) sourceID)))"

text \<open>The retry loop of \<^verbatim>\<open>scheduleImpl\<close>; the number is the count of rounds left.\<close>

fun retryLoop :: "Deps \<Rightarrow> Cluster \<Rightarrow> StoreInfo \<Rightarrow> StoreInfo option list \<Rightarrow> nat \<Rightarrow> Sched \<Rightarrow>
    Sched \<times> (panic + Operator list option)" where
  "retryLoop deps cluster source excludedStores 0 st = (st, Inr None)"
| "retryLoop deps cluster source excludedStores (Suc n) st =
     (let sourceID = GetID source;
          (st1, picked) = pickRegion cluster sourceID st
      in case picked of
           None \<Rightarrow> retryLoop deps cluster source excludedStores n (hits_put deps st1 (Some source) None)
         | Some region \<Rightarrow>
             if int (length (GetPeers region)) \<noteq> cl_GetMaxReplicas cluster
             then retryLoop deps cluster source excludedStores n (hits_put deps st1 (Some source) None)
             else if cl_IsRegionHot cluster region
             then retryLoop deps cluster source excludedStores n (hits_put deps st1 (Some source) None)
             else (let oldPeer = GetStorePeer region sourceID in
                   case transferPeer deps cluster region oldPeer excludedStores st1 of
                     (st2, Inl p) \<Rightarrow> (st2, Inl p)
                   | (st2, Inr (Some op)) \<Rightarrow> (st2, Inr (Some [op]))
                   | (st2, Inr None) \<Rightarrow> retryLoop deps cluster source excludedStores n st2))"

definition scheduleImpl :: "Deps \<Rightarrow> Cluster \<Rightarrow> StoreInfo option list \<Rightarrow> StoreInfo option list \<Rightarrow> Sched \<Rightarrow>
    Sched \<times> (panic + Operator list option)" where
  "scheduleImpl deps cluster includeStores excludedStores st =
     (let (st1, f) = buildSourceFilter deps balanceRegionName cluster st in
      case SelectSource deps cluster includeStores [f] of
        None \<Rightarrow> (st1, Inr None)
      | Some source \<Rightarrow> retryLoop deps cluster source excludedStores balanceRegionRetryLimit st1)"

text \<open>
  The loop of \<^verbatim>\<open>Schedule\<close> that sorts the stores into the two slices. Both slices
  are made with length \<^verbatim>\<open>len(stores)\<close>, so each starts with that many nil entries,
  and the stores are appended behind them.
\<close>

definition partitionStores :: "StoreInfo list \<Rightarrow> StoreInfo option list \<times> StoreInfo option list" where
  "partitionStores stores =
     foldl (\<lambda>(storageStores, performanceStores) store.
              (let storeType = store_StoreType (si_meta store) in
               if storeType = StoreType_Storage
               then (storageStores @ [Some store], performanceStores)
               else if storeType = StoreType_Performance
               then (storageStores, performanceStores @ [Some store])
               else (storageStores, performanceStores @ [Some store])))
       (replicate (length stores) None, replicate (length stores) None) stores"

definition Schedule :: "Deps \<Rightarrow> Cluster \<Rightarrow> Sched \<Rightarrow> Sched \<times> (panic + Operator list option)" where
  "Schedule deps cluster st =
     (let stores = cl_GetStores cluster;
          (storageStores, performanceStores) = partitionStores stores
      in case scheduleImpl deps cluster storageStores performanceStores st of
           (st1, Inl p) \<Rightarrow> (st1, Inl p)
         | (st1, Inr (Some ops)) \<Rightarrow> (st1, Inr (Some ops))
         | (st1, Inr None) \<Rightarrow> scheduleImpl deps cluster performanceStores storageStores st1)"

section \<open>Auxiliary notions and example clusters\<close>

text \<open>
  The write of a store meta goes through: there is no metadata store, or the store
  accepts the meta.
\<close>

definition storeWritable :: "Env \<Rightarrow> RaftCluster \<Rightarrow> Store \<Rightarrow> bool" where
  "storeWritable env c meta = (rc_storage c = None \<or> SaveStore_err env meta = None)"

text \<open>The second cluster is the first one but for the log.\<close>

definition sameButLog :: "RaftCluster \<Rightarrow> RaftCluster \<Rightarrow> bool" where
  "sameButLog c c' = (c'\<lparr>rc_log := rc_log c\<rparr> = c)"

text \<open>
  The refusals of \<^verbatim>\<open>putStore\<close> ahead of the write, in the order of the checks:
  a zero id; a version that does not parse or is not compatible with the cluster version;
  the address of another store that is not Tombstone; and, under
  \<^verbatim>\<open>strictly-match-label\<close>, a configured location label without a non-empty
  value among the labels of the snapshot, or a label of the snapshot whose key is not
  configured.
\<close>

definition putStoreRefused :: "Env \<Rightarrow> RaftCluster \<Rightarrow> Store \<Rightarrow> bool" where
  "putStoreRefused env c store =
     (store_Id store = 0 \<or>
      (case ParseVersion env (store_Version store) of
         Inl err \<Rightarrow> True
       | Inr v \<Rightarrow> \<not> IsCompatible env (opt_ClusterVersion (rc_opt c)) v) \<or>
      (\<exists>s \<in> set (GetStores c).
         \<not> IsTombstone s \<and> GetID s \<noteq> store_Id store \<and> GetAddress s = store_Address store) \<or>
      (opt_StrictlyMatchLabel (rc_opt c) \<and>
        ((\<exists>k \<in> set (opt_LocationLabels (rc_opt c)). GetLabelValue (putStoreSnapshot env c store) k = []) \<or>
         (\<exists>l \<in> set (GetLabels (putStoreSnapshot env c store)).
            label_Key l \<notin> set (opt_LocationLabels (rc_opt c))))))"

definition ex_version :: Version where
  "ex_version = \<lparr>ver_Major = 3, ver_Minor = 0, ver_Patch = 0\<rparr>"

definition ex_env :: Env where
  "ex_env =
     \<lparr> ParseVersion = (\<lambda>v. if v = ''3.0.0'' then Inr ex_version else Inl ''invalid version''),
       IsCompatible = (\<lambda>cv v. ver_Major cv \<le> ver_Major v),
       MergeLabels = (\<lambda>s labels. labels),
       CheckWriteStatus = (\<lambda>h r. []),
       CheckReadStatus = (\<lambda>h r. []),
       SaveStore_err = (\<lambda>m. None),
       SaveRegion_err = (\<lambda>m. None),
       DeleteRegion_err = (\<lambda>m. None) \<rparr>"

definition ex_env_down :: Env where
  "ex_env_down =
     ex_env\<lparr> SaveStore_err := (\<lambda>m. Some ''etcd unavailable''),
             SaveRegion_err := (\<lambda>m. Some ''etcd unavailable''),
             DeleteRegion_err := (\<lambda>m. Some ''etcd unavailable'') \<rparr>"

definition ex_meta :: "uint64 \<Rightarrow> string \<Rightarrow> StoreState \<Rightarrow> StoreLabel list \<Rightarrow> Store" where
  "ex_meta i addr st labels =
     \<lparr> store_Id = i, store_Address = addr, store_State = st, store_Labels = labels,
       store_Version = ''3.0.0'', store_PeerAddress = [], store_StoreType = StoreType_Storage \<rparr>"

definition ex_labels :: "StoreLabel list" where
  "ex_labels = [\<lparr>label_Key = ''zone'', label_Value = ''z1''\<rparr>, \<lparr>label_Key = ''rack'', label_Value = ''r1''\<rparr>]"

definition ex_stats :: StoreStats where
  "ex_stats =
     \<lparr> stats_StoreId = 1, stats_Capacity = 100, stats_Available = 60, stats_UsedSize = 40,
       stats_SendingSnapCount = 0, stats_ReceivingSnapCount = 0, stats_ApplyingSnapCount = 0,
       stats_IsBusy = False, stats_BytesWritten = 7, stats_BytesRead = 9,
       stats_KeysWritten = 1, stats_KeysRead = 2 \<rparr>"

definition ex_cluster :: RaftCluster where
  "ex_cluster =
     \<lparr> rc_stores = [NewStoreInfo (ex_meta 1 ''a1'' StoreState_Up ex_labels),
                    NewStoreInfo (ex_meta 2 ''a2'' StoreState_Offline ex_labels),
                    NewStoreInfo (ex_meta 3 ''a3'' StoreState_Tombstone ex_labels)],
       rc_regions = [],
       rc_opt = \<lparr> opt_ClusterVersion = ex_version, opt_LocationLabels = [''zone'', ''rack''],
                  opt_StrictlyMatchLabel = True, opt_MaxReplicas = 3 \<rparr>,
       rc_storage = Some \<lparr> kv_Stores = Map.empty, kv_Regions = Map.empty \<rparr>,
       rc_prepareChecker = \<lparr> pc_reactiveRegions = (\<lambda>i. 0), pc_sum = 0 \<rparr>,
       rc_changedRegions = [],
       rc_labelLevelStats = [],
       rc_regionStats = Some [],
       rc_storesStats = [],
       rc_hotSpotCache = [],
       rc_log = [] \<rparr>"

text \<open>
  The staleness condition of claim C1: a region with the id is cached and the heartbeat
  has a smaller version or a smaller conf_ver; or none is cached and some cached region
  that overlaps the heartbeat's range has a greater version.
\<close>

definition heartbeatIsStale :: "RaftCluster \<Rightarrow> RegionInfo \<Rightarrow> bool" where
  "heartbeatIsStale c region =
     (case GetRegion c (GetRegionID region) of
        Some orig \<Rightarrow> GetVersion region < GetVersion orig \<or> GetConfVer region < GetConfVer orig
      | None \<Rightarrow> (\<exists>x \<in> set (rc_regions c). overlaps x region \<and> GetVersion region < GetVersion x))"

text \<open>
  The flags \<^verbatim>\<open>saveKV\<close>, \<^verbatim>\<open>saveCache\<close> and \<^verbatim>\<open>isNew\<close> that
  \<^verbatim>\<open>processRegionHeartbeat\<close> computes for a heartbeat that is not stale.
\<close>

definition heartbeatFlags :: "RaftCluster \<Rightarrow> RegionInfo \<Rightarrow> bool \<times> bool \<times> bool" where
  "heartbeatFlags c region =
     (case GetRegion c (GetRegionID region) of
        None \<Rightarrow> (True, True, True)
      | Some orig \<Rightarrow> snd (compareWithOrigin c region orig))"

text \<open>Two clusters with the same store index and the same region index.\<close>

definition sameCache :: "RaftCluster \<Rightarrow> RaftCluster \<Rightarrow> bool" where
  "sameCache c d = (rc_stores c = rc_stores d \<and> rc_regions c = rc_regions d)"

definition ex_peer :: Peer where
  "ex_peer = \<lparr>peer_Id = 11, peer_StoreId = 1, peer_Role = Voter\<rparr>"

definition ex_region :: "uint64 \<Rightarrow> 8 word list \<Rightarrow> 8 word list \<Rightarrow> uint64 \<Rightarrow> uint64 \<Rightarrow> RegionInfo" where
  "ex_region i startKey endKey version confVer =
     \<lparr> ri_meta = \<lparr> region_Id = i, region_StartKey = startKey, region_EndKey = endKey,
                   region_RegionEpoch = \<lparr>epoch_ConfVer = confVer, epoch_Version = version\<rparr>,
                   region_Peers = [ex_peer] \<rparr>,
       ri_leader = Some ex_peer, ri_downPeers = [], ri_pendingPeers = [],
       ri_approximateSize = 10, ri_approximateKeys = 100,
       ri_writtenBytes = 0, ri_readBytes = 0, ri_writtenKeys = 0, ri_readKeys = 0 \<rparr>"

definition ex_cluster_r :: RaftCluster where
  "ex_cluster_r = ex_cluster\<lparr>rc_regions := [ex_region 1 [97] [109] 5 2]\<rparr>"

definition ex_config :: ScheduleConfig where
  "ex_config =
     \<lparr> MaxSnapshotCount = 0, MaxPendingPeerCount = 0, MaxMergeRegionSize = 0,
       MaxMergeRegionKeys = 0, SplitMergeInterval = 0, EnableOneWayMerge = False,
       PatrolRegionInterval = 0, MaxStoreDownTime = 0, MaxColdDataTime = 0,
       LeaderScheduleLimit = 0, LeaderScheduleStrategy = [], RegionScheduleLimit = 0,
       ReplicaScheduleLimit = 0, MergeScheduleLimit = 0, HotRegionScheduleLimit = 0,
       HotRegionCacheHitsThreshold = 0, StoreBalanceRate = Finite 0, TolerantSizeRatio = Finite 0,
       LowSpaceRatio = Finite (3 / 4), HighSpaceRatio = Finite (1 / 2), SchedulerMaxWaitingOperator = 0,
       DisableLearner = False, DisableRemoveDownReplica = False,
       DisableReplaceOfflineReplica = False, DisableMakeUpReplica = False,
       DisableRemoveExtraReplica = False, DisableLocationReplacement = False,
       DisableNamespaceRelocation = False,
       Schedulers = [\<lparr>sc_Type = ''balance-region'', sc_Args = [], sc_Disable = False, sc_ArgsPayload = []\<rparr>],
       SchedulersPayload = [] \<rparr>"

definition ex_registered :: "string \<Rightarrow> bool" where
  "ex_registered t = (t \<in> set [''balance-region'', ''balance-leader'', ''hot-region'', ''label'', ''separate-cold-hot''])"

text \<open>The entries of a slice of store pointers that are not nil, in order.\<close>

fun nonNil :: "'a option list \<Rightarrow> 'a list" where
  "nonNil [] = []"
| "nonNil (None # xs) = nonNil xs"
| "nonNil (Some x # xs) = x # nonNil xs"

text \<open>The store carries the type tag Storage.\<close>

definition isStorage :: "StoreInfo \<Rightarrow> bool" where
  "isStorage s = (store_StoreType (si_meta s) = StoreType_Storage)"

definition ex_st :: "uint64 \<Rightarrow> StoreType \<Rightarrow> StoreInfo" where
  "ex_st i t = NewStoreInfo ((ex_meta i ''a'' StoreState_Up ex_labels)\<lparr>store_StoreType := t\<rparr>)"

definition ex_cl :: Cluster where
  "ex_cl =
     \<lparr> cl_GetStores = [ex_st 1 StoreType_Storage, ex_st 2 StoreType_Performance, ex_st 3 StoreType_Other],
       cl_GetStore = (\<lambda>i. find (\<lambda>s. GetID s = i)
                       [ex_st 1 StoreType_Storage, ex_st 2 StoreType_Performance, ex_st 3 StoreType_Other]),
       cl_RandPendingRegion = (\<lambda>n i. None),
       cl_RandFollowerRegion = (\<lambda>n i. None),
       cl_RandLeaderRegion = (\<lambda>n i. Some (ex_region 1 [97] [109] 5 2)),
       cl_GetMaxReplicas = 1,
       cl_IsRegionHot = (\<lambda>r. True),
       cl_GetRegionStores = (\<lambda>r. [ex_st 1 StoreType_Storage]),
       cl_GetLocationLabels = [''zone'', ''rack''],
       cl_AllocPeer = (\<lambda>n i. Some \<lparr>peer_Id = 100, peer_StoreId = i, peer_Role = Voter\<rparr>) \<rparr>"

definition ex_deps :: Deps where
  "ex_deps =
     \<lparr> clock = (\<lambda>n. 0),
       SelectSource = (\<lambda>cl stores fs. find (\<lambda>s. \<not> (\<exists>f \<in> set fs. flt_Source f s)) (nonNil stores)),
       SelectBestReplacementStore = (\<lambda>cl region peer fs. 0),
       shouldBalance = (\<lambda>cl src tgt region. True),
       CreateMovePeerOperator = (\<lambda>desc region kind old new peer. None),
       DistinctScore = (\<lambda>labels stores store. Finite 0) \<rparr>"



section \<open>Properties of store administration\<close>

lemma find_snoc_absent:
  "\<forall>x \<in> set xs. GetID x \<noteq> GetID s \<Longrightarrow>
   find (\<lambda>x. GetID x = i) (xs @ [s]) = (if i = GetID s then Some s else find (\<lambda>x. GetID x = i) xs)"
  by (induction xs) auto

lemma find_replace_other:
  "i \<noteq> GetID s \<Longrightarrow>
   find (\<lambda>x. GetID x = i) (map (\<lambda>x. if GetID x = GetID s then s else x) xs) =
     find (\<lambda>x. GetID x = i) xs"
  by (induction xs) auto

lemma find_replace_same:
  "find (\<lambda>x. GetID x = GetID s) (map (\<lambda>x. if GetID x = GetID s then s else x) xs) =
     (if \<exists>x \<in> set xs. GetID x = GetID s then Some s else None)"
  by (induction xs) auto

lemma GetStore_core_PutStore:
  "GetStore (core_PutStore s c) i = (if i = GetID s then Some s else GetStore c i)"
proof (cases "\<exists>x \<in> set (rc_stores c). GetID x = GetID s")
  case True
  then show ?thesis
    unfolding GetStore_def core_PutStore_def
    by (simp add: find_replace_other find_replace_same)
next
  case False
  then have "\<forall>x \<in> set (rc_stores c). GetID x \<noteq> GetID s" by blast
  from find_snoc_absent [OF this, of i] False show ?thesis
    unfolding GetStore_def core_PutStore_def by simp
qed

lemma find_Some_set: "find P xs = Some x \<Longrightarrow> x \<in> set xs \<and> P x"
  by (induction xs) (auto split: if_splits)

lemma GetStore_GetID: "GetStore c i = Some s \<Longrightarrow> GetID s = i"
  unfolding GetStore_def using find_Some_set [of "\<lambda>s. GetID s = i" "rc_stores c" s] by simp

lemma GetStore_member: "GetStore c i = Some s \<Longrightarrow> s \<in> set (rc_stores c)"
  unfolding GetStore_def using find_Some_set [of "\<lambda>s. GetID s = i" "rc_stores c" s] by simp

lemma GetStore_fields [simp]:
  "GetStore (c\<lparr>rc_storesStats := a\<rparr>) i = GetStore c i"
  "GetStore (c\<lparr>rc_storage := b\<rparr>) i = GetStore c i"
  "GetStore (c\<lparr>rc_log := l\<rparr>) i = GetStore c i"
  by (simp_all add: GetStore_def)

lemma GetStore_log [simp]: "GetStore (logf lvl msg c) i = GetStore c i"
  by (simp add: GetStore_def logf_def)

lemma core_PutStore_frame:
  "rc_regions (core_PutStore s c) = rc_regions c"
  "rc_storage (core_PutStore s c) = rc_storage c"
  "rc_opt (core_PutStore s c) = rc_opt c"
  "rc_log (core_PutStore s c) = rc_log c"
  "rc_storesStats (core_PutStore s c) = rc_storesStats c"
  by (simp_all add: core_PutStore_def)

text \<open>The two outcomes of the locked store write.\<close>

lemma putStoreLocked_ok:
  "storeWritable env c (si_meta s) \<Longrightarrow>
   snd (putStoreLocked env c s) = None \<and>
   (\<forall>i. GetStore (fst (putStoreLocked env c s)) i = (if i = GetID s then Some s else GetStore c i)) \<and>
   rc_regions (fst (putStoreLocked env c s)) = rc_regions c \<and>
   rc_log (fst (putStoreLocked env c s)) = rc_log c"
  unfolding putStoreLocked_def storeWritable_def
  by (auto simp: GetStore_core_PutStore core_PutStore_frame split: option.splits)

lemma putStoreLocked_fail:
  "\<not> storeWritable env c (si_meta s) \<Longrightarrow>
   \<exists>msg. putStoreLocked env c s = (c, Some (ErrStorage msg))"
  unfolding putStoreLocked_def storeWritable_def
  by (auto split: option.splits)

text \<open>
  Claim C10. A store heartbeat naming a known store replaces that store's sampled
  statistics and last-heartbeat timestamp and nothing else of the snapshot; every other
  store, the regions, the metadata store and the options are what they were. For an
  unknown store id the heartbeat answers store-not-found and the cluster is unchanged.
\<close>

theorem handleStoreHeartbeat_frame:
  "(GetStore c (GetStoreId stats) = None \<longrightarrow>
      handleStoreHeartbeat now c stats = (c, Some (ErrStoreNotFound (GetStoreId stats)))) \<and>
   (\<forall>store. GetStore c (GetStoreId stats) = Some store \<longrightarrow>
      snd (handleStoreHeartbeat now c stats) = None \<and>
      GetStore (fst (handleStoreHeartbeat now c stats)) (GetStoreId stats) =
        Some (store\<lparr>si_stats := stats, si_lastHeartbeatTS := now\<rparr>) \<and>
      (\<forall>i. i \<noteq> GetStoreId stats \<longrightarrow>
         GetStore (fst (handleStoreHeartbeat now c stats)) i = GetStore c i) \<and>
      length (rc_stores (fst (handleStoreHeartbeat now c stats))) = length (rc_stores c) \<and>
      rc_regions (fst (handleStoreHeartbeat now c stats)) = rc_regions c \<and>
      rc_storage (fst (handleStoreHeartbeat now c stats)) = rc_storage c \<and>
      rc_opt (fst (handleStoreHeartbeat now c stats)) = rc_opt c)"
proof (intro conjI allI impI)
  assume "GetStore c (GetStoreId stats) = None"
  then show "handleStoreHeartbeat now c stats = (c, Some (ErrStoreNotFound (GetStoreId stats)))"
    by (simp add: handleStoreHeartbeat_def)
next
  fix store
  assume s: "GetStore c (GetStoreId stats) = Some store"
  let ?new = "SetLastHeartbeatTS now (SetStoreStats stats store)"
  have id: "GetID ?new = GetStoreId stats"
    using GetStore_GetID [OF s] by (simp add: GetID_def SetLastHeartbeatTS_def SetStoreStats_def)
  have new: "?new = store\<lparr>si_stats := stats, si_lastHeartbeatTS := now\<rparr>"
    by (simp add: SetLastHeartbeatTS_def SetStoreStats_def)
  have fst_eq: "\<And>i. GetStore (fst (handleStoreHeartbeat now c stats)) i = GetStore (core_PutStore ?new c) i"
    using s by (simp add: handleStoreHeartbeat_def Let_def GetStore_def)
  show "snd (handleStoreHeartbeat now c stats) = None"
    using s by (simp add: handleStoreHeartbeat_def Let_def)
  show "GetStore (fst (handleStoreHeartbeat now c stats)) (GetStoreId stats) =
        Some (store\<lparr>si_stats := stats, si_lastHeartbeatTS := now\<rparr>)"
    using id new by (simp add: fst_eq GetStore_core_PutStore)
  show "length (rc_stores (fst (handleStoreHeartbeat now c stats))) = length (rc_stores c)"
  proof -
    have "\<exists>x \<in> set (rc_stores c). GetID x = GetID ?new"
      using GetStore_member [OF s] GetStore_GetID [OF s] id by auto
    then show ?thesis
      using s by (simp add: handleStoreHeartbeat_def Let_def core_PutStore_def del: set_map)
  qed
  show "rc_regions (fst (handleStoreHeartbeat now c stats)) = rc_regions c"
    using s by (simp add: handleStoreHeartbeat_def Let_def core_PutStore_frame)
  show "rc_storage (fst (handleStoreHeartbeat now c stats)) = rc_storage c"
    using s by (simp add: handleStoreHeartbeat_def Let_def core_PutStore_frame)
  show "rc_opt (fst (handleStoreHeartbeat now c stats)) = rc_opt c"
    using s by (simp add: handleStoreHeartbeat_def Let_def core_PutStore_frame)
  fix i
  assume "i \<noteq> GetStoreId stats"
  then show "GetStore (fst (handleStoreHeartbeat now c stats)) i = GetStore c i"
    using id by (simp add: fst_eq GetStore_core_PutStore)
qed


lemma sameButLog_refl [simp]: "sameButLog c c"
  by (simp add: sameButLog_def)

lemma sameButLog_logf [simp]: "sameButLog c (logf lvl msg c') = sameButLog c c'"
  by (simp add: sameButLog_def logf_def)

lemma sameButLog_GetStore: "sameButLog c c' \<Longrightarrow> GetStore c' i = GetStore c i"
  unfolding sameButLog_def GetStore_def by (metis RaftCluster.select_convs(1) RaftCluster.surjective RaftCluster.update_convs(11))

lemma storeWritable_logf [simp]: "storeWritable env (logf lvl msg c) m = storeWritable env c m"
  by (simp add: storeWritable_def logf_def)

lemma putStoreLocked_fail_log:
  "\<not> storeWritable env c (si_meta s) \<Longrightarrow> sameButLog c0 c \<Longrightarrow>
   (\<exists>msg. snd (putStoreLocked env c s) = Some (ErrStorage msg)) \<and> sameButLog c0 (fst (putStoreLocked env c s))"
  using putStoreLocked_fail [of env c s] by auto

text \<open>
  Claim C5, as amended. On an existing store \<^verbatim>\<open>BuryStore\<close> goes by the state:
  a Tombstone store is left alone and the call succeeds; an Up store without
  \<^verbatim>\<open>force\<close> is refused and nothing changes; an Up store with \<^verbatim>\<open>force\<close>
  (after a warning) and an Offline store become Tombstone, provided the write of the store
  meta to the metadata store succeeds or there is no metadata store. When that write fails
  the error is returned and the cluster is unchanged but for the log.
\<close>

theorem BuryStore_by_state:
  assumes "GetStore c storeID = Some store"
  shows
   "(IsTombstone store \<longrightarrow> BuryStore env c storeID force = (c, None)) \<and>
    (IsUp store \<and> \<not> force \<longrightarrow> BuryStore env c storeID force = (c, Some ErrStoreStillUp)) \<and>
    (IsUp store \<and> force \<and> storeWritable env c (si_meta (core_SetStoreState StoreState_Tombstone store)) \<longrightarrow>
       snd (BuryStore env c storeID force) = None \<and>
       GetStore (fst (BuryStore env c storeID force)) storeID =
         Some (core_SetStoreState StoreState_Tombstone store) \<and>
       (LWarn, ''forcedly bury store'') \<in> set (rc_log (fst (BuryStore env c storeID force)))) \<and>
    (IsOffline store \<and> storeWritable env c (si_meta (core_SetStoreState StoreState_Tombstone store)) \<longrightarrow>
       snd (BuryStore env c storeID force) = None \<and>
       GetStore (fst (BuryStore env c storeID force)) storeID =
         Some (core_SetStoreState StoreState_Tombstone store)) \<and>
    (\<not> IsTombstone store \<and> (IsUp store \<longrightarrow> force) \<and>
     \<not> storeWritable env c (si_meta (core_SetStoreState StoreState_Tombstone store)) \<longrightarrow>
       (\<exists>msg. snd (BuryStore env c storeID force) = Some (ErrStorage msg)) \<and>
       sameButLog c (fst (BuryStore env c storeID force)))"
proof -
  let ?new = "core_SetStoreState StoreState_Tombstone store"
  have id: "GetID ?new = storeID"
    using GetStore_GetID [OF assms] by (simp add: GetID_def core_SetStoreState_def)
  have excl: "IsOffline store \<Longrightarrow> \<not> IsUp store \<and> \<not> IsTombstone store"
    "IsUp store \<Longrightarrow> \<not> IsTombstone store"
    by (auto simp: IsOffline_def IsUp_def IsTombstone_def)
  have ok: "\<And>c'. storeWritable env c' (si_meta ?new) \<Longrightarrow>
      snd (putStoreLocked env c' ?new) = None \<and>
      GetStore (fst (putStoreLocked env c' ?new)) storeID = Some ?new \<and>
      rc_log (fst (putStoreLocked env c' ?new)) = rc_log c'"
    using putStoreLocked_ok [of env _ ?new] id by simp
  show ?thesis
  proof (intro conjI impI)
    assume "IsTombstone store"
    then show "BuryStore env c storeID force = (c, None)"
      using assms by (simp add: BuryStore_def)
  next
    assume "IsUp store \<and> \<not> force"
    then show "BuryStore env c storeID force = (c, Some ErrStoreStillUp)"
      using assms excl by (simp add: BuryStore_def)
  next
    assume a: "IsUp store \<and> force \<and> storeWritable env c (si_meta ?new)"
    let ?c2 = "logf LWarn ''store has been Tombstone'' (logf LWarn ''forcedly bury store'' c)"
    have b: "BuryStore env c storeID force = putStoreLocked env ?c2 ?new"
      using assms a excl by (simp add: BuryStore_def Let_def)
    have w: "storeWritable env ?c2 (si_meta ?new)" using a by simp
    show "snd (BuryStore env c storeID force) = None"
      using ok [OF w] b by simp
    show "GetStore (fst (BuryStore env c storeID force)) storeID = Some ?new"
      using ok [OF w] b by simp
    show "(LWarn, ''forcedly bury store'') \<in> set (rc_log (fst (BuryStore env c storeID force)))"
      using ok [OF w] b by (simp add: logf_def)
  next
    assume a: "IsOffline store \<and> storeWritable env c (si_meta ?new)"
    let ?c2 = "logf LWarn ''store has been Tombstone'' c"
    have b: "BuryStore env c storeID force = putStoreLocked env ?c2 ?new"
      using assms a excl by (simp add: BuryStore_def Let_def)
    have w: "storeWritable env ?c2 (si_meta ?new)" using a by simp
    show "snd (BuryStore env c storeID force) = None"
      using ok [OF w] b by simp
    show "GetStore (fst (BuryStore env c storeID force)) storeID = Some ?new"
      using ok [OF w] b by simp
  next
    assume a: "\<not> IsTombstone store \<and> (IsUp store \<longrightarrow> force) \<and> \<not> storeWritable env c (si_meta ?new)"
    let ?c2 = "logf LWarn ''store has been Tombstone'' (if IsUp store then logf LWarn ''forcedly bury store'' c else c)"
    have b: "BuryStore env c storeID force = putStoreLocked env ?c2 ?new"
      using assms a by (auto simp add: BuryStore_def Let_def)
    have w: "\<not> storeWritable env ?c2 (si_meta ?new)" using a by simp
    have l: "sameButLog c ?c2" by simp
    show "\<exists>msg. snd (BuryStore env c storeID force) = Some (ErrStorage msg)"
      using putStoreLocked_fail_log [OF w l] b by simp
    show "sameButLog c (fst (BuryStore env c storeID force))"
      using putStoreLocked_fail_log [OF w l] b by simp
  qed
qed


lemmas ex_defs =
  ex_cluster_def ex_env_def ex_env_down_def ex_meta_def ex_labels_def ex_version_def ex_stats_def
  NewStoreInfo_def GetStore_def GetStores_def GetID_def GetStoreId_def GetState_def GetAddress_def
  GetLabels_def IsUp_def IsOffline_def IsTombstone_def storeWritable_def core_SetStoreState_def

theorem handleStoreHeartbeat_frame_witness:
  "handleStoreHeartbeat 5 ex_cluster None = (ex_cluster, Some (ErrStoreNotFound 0)) \<and>
   snd (handleStoreHeartbeat 5 ex_cluster (Some ex_stats)) = None \<and>
   GetStore (fst (handleStoreHeartbeat 5 ex_cluster (Some ex_stats))) 1 =
     Some ((NewStoreInfo (ex_meta 1 ''a1'' StoreState_Up ex_labels))
             \<lparr>si_stats := Some ex_stats, si_lastHeartbeatTS := 5\<rparr>) \<and>
   GetStore (fst (handleStoreHeartbeat 5 ex_cluster (Some ex_stats))) 2 = GetStore ex_cluster 2 \<and>
   rc_regions (fst (handleStoreHeartbeat 5 ex_cluster (Some ex_stats))) = rc_regions ex_cluster"
proof -
  have none: "GetStore ex_cluster (GetStoreId None) = None"
    by (simp add: ex_defs)
  have some: "GetStore ex_cluster (GetStoreId (Some ex_stats)) =
      Some (NewStoreInfo (ex_meta 1 ''a1'' StoreState_Up ex_labels))"
    by (simp add: ex_defs)
  have id: "GetStoreId (Some ex_stats) = 1" "GetStoreId None = 0"
    by (simp_all add: ex_defs)
  from handleStoreHeartbeat_frame [of ex_cluster None 5] none id
  have a: "handleStoreHeartbeat 5 ex_cluster None = (ex_cluster, Some (ErrStoreNotFound 0))"
    by simp
  from handleStoreHeartbeat_frame [of ex_cluster "Some ex_stats" 5] some id
  show ?thesis using a by simp
qed

theorem BuryStore_by_state_witness:
  "BuryStore ex_env ex_cluster 1 False = (ex_cluster, Some ErrStoreStillUp) \<and>
   BuryStore ex_env ex_cluster 3 True = (ex_cluster, None) \<and>
   snd (BuryStore ex_env ex_cluster 1 True) = None \<and>
   map_option GetState (GetStore (fst (BuryStore ex_env ex_cluster 1 True)) 1) = Some StoreState_Tombstone \<and>
   (LWarn, ''forcedly bury store'') \<in> set (rc_log (fst (BuryStore ex_env ex_cluster 1 True))) \<and>
   snd (BuryStore ex_env ex_cluster 2 False) = None \<and>
   map_option GetState (GetStore (fst (BuryStore ex_env ex_cluster 2 False)) 2) = Some StoreState_Tombstone \<and>
   sameButLog ex_cluster (fst (BuryStore ex_env_down ex_cluster 2 False))"
proof -
  have s1: "GetStore ex_cluster 1 = Some (NewStoreInfo (ex_meta 1 ''a1'' StoreState_Up ex_labels))"
    and s2: "GetStore ex_cluster 2 = Some (NewStoreInfo (ex_meta 2 ''a2'' StoreState_Offline ex_labels))"
    and s3: "GetStore ex_cluster 3 = Some (NewStoreInfo (ex_meta 3 ''a3'' StoreState_Tombstone ex_labels))"
    by (simp_all add: ex_defs)
  have "BuryStore ex_env ex_cluster 1 False = (ex_cluster, Some ErrStoreStillUp)"
    using BuryStore_by_state [OF s1, of ex_env False] by (simp add: ex_defs)
  moreover have "BuryStore ex_env ex_cluster 3 True = (ex_cluster, None)"
    using BuryStore_by_state [OF s3, of ex_env True] by (simp add: ex_defs)
  moreover have "snd (BuryStore ex_env ex_cluster 1 True) = None \<and>
      map_option GetState (GetStore (fst (BuryStore ex_env ex_cluster 1 True)) 1) = Some StoreState_Tombstone \<and>
      (LWarn, ''forcedly bury store'') \<in> set (rc_log (fst (BuryStore ex_env ex_cluster 1 True)))"
    using BuryStore_by_state [OF s1, of ex_env True] by (simp add: ex_defs)
  moreover have "snd (BuryStore ex_env ex_cluster 2 False) = None \<and>
      map_option GetState (GetStore (fst (BuryStore ex_env ex_cluster 2 False)) 2) = Some StoreState_Tombstone"
    using BuryStore_by_state [OF s2, of ex_env False] by (simp add: ex_defs)
  moreover have "sameButLog ex_cluster (fst (BuryStore ex_env_down ex_cluster 2 False))"
    using BuryStore_by_state [OF s2, of ex_env_down False] by (simp add: ex_defs)
  ultimately show ?thesis by blast
qed

text \<open>
  The claim C5 as stated fails when the metadata store refuses the write: the Offline
  store 2 stays Offline, and the Up store 1 buried with \<^verbatim>\<open>force\<close> stays Up.
\<close>

theorem BuryStore_offline_counterexample:
  "map_option GetState (GetStore ex_cluster 2) = Some StoreState_Offline \<and>
   snd (BuryStore ex_env_down ex_cluster 2 False) = Some (ErrStorage ''etcd unavailable'') \<and>
   map_option GetState (GetStore (fst (BuryStore ex_env_down ex_cluster 2 False)) 2) = Some StoreState_Offline \<and>
   snd (BuryStore ex_env_down ex_cluster 1 True) = Some (ErrStorage ''etcd unavailable'') \<and>
   map_option GetState (GetStore (fst (BuryStore ex_env_down ex_cluster 1 True)) 1) = Some StoreState_Up"
  by (simp add: BuryStore_def putStoreLocked_def logf_def Let_def ex_defs)

lemma duplicatedAddress_iff:
  "(duplicatedAddress store ss \<noteq> None) =
     (\<exists>s \<in> set ss. \<not> IsTombstone s \<and> GetID s \<noteq> store_Id store \<and> GetAddress s = store_Address store)"
  by (induction ss) auto

lemma checkLocationLabels_err:
  "(snd (checkLocationLabels strict s ks c) \<noteq> None) =
     (strict \<and> (\<exists>k \<in> set ks. GetLabelValue s k = []))"
  by (induction ks arbitrary: c) (auto simp: Let_def)

lemma checkLocationLabels_log:
  "sameButLog c0 c \<Longrightarrow> sameButLog c0 (fst (checkLocationLabels strict s ks c))"
  by (induction ks arbitrary: c) (auto simp: Let_def)

lemma checkStoreLabels_err:
  "(snd (checkStoreLabels strict keys ls c) \<noteq> None) =
     (strict \<and> (\<exists>l \<in> set ls. label_Key l \<notin> set keys))"
  by (induction ls arbitrary: c) (auto simp: Let_def)

lemma checkStoreLabels_log:
  "sameButLog c0 c \<Longrightarrow> sameButLog c0 (fst (checkStoreLabels strict keys ls c))"
  by (induction ls arbitrary: c) (auto simp: Let_def)

lemma sameButLog_storeWritable:
  "sameButLog c c' \<Longrightarrow> storeWritable env c' m = storeWritable env c m"
  unfolding sameButLog_def storeWritable_def
  by (metis RaftCluster.select_convs(4) RaftCluster.surjective RaftCluster.update_convs(11))

lemma putStore_refused:
  "putStoreRefused env c store \<Longrightarrow>
   snd (putStore env c store) \<noteq> None \<and> sameButLog c (fst (putStore env c store))"
  unfolding putStoreRefused_def putStore_def
  using duplicatedAddress_iff [of store "GetStores c"]
        checkLocationLabels_err [of "opt_StrictlyMatchLabel (rc_opt c)" "putStoreSnapshot env c store" "opt_LocationLabels (rc_opt c)" c]
        checkLocationLabels_log [of c c "opt_StrictlyMatchLabel (rc_opt c)" "putStoreSnapshot env c store" "opt_LocationLabels (rc_opt c)"]
        checkStoreLabels_err [of "opt_StrictlyMatchLabel (rc_opt c)" "opt_LocationLabels (rc_opt c)" "GetLabels (putStoreSnapshot env c store)"
            "fst (checkLocationLabels (opt_StrictlyMatchLabel (rc_opt c)) (putStoreSnapshot env c store) (opt_LocationLabels (rc_opt c)) c)"]
        checkStoreLabels_log [of c "fst (checkLocationLabels (opt_StrictlyMatchLabel (rc_opt c)) (putStoreSnapshot env c store) (opt_LocationLabels (rc_opt c)) c)"
            "opt_StrictlyMatchLabel (rc_opt c)" "opt_LocationLabels (rc_opt c)" "GetLabels (putStoreSnapshot env c store)"]
  by (auto simp: Let_def split: sum.splits option.splits prod.splits)

lemma putStore_accepted:
  "\<not> putStoreRefused env c store \<Longrightarrow>
   \<exists>c2. sameButLog c c2 \<and> putStore env c store = putStoreLocked env c2 (putStoreSnapshot env c store)"
  unfolding putStoreRefused_def putStore_def
  using duplicatedAddress_iff [of store "GetStores c"]
        checkLocationLabels_err [of "opt_StrictlyMatchLabel (rc_opt c)" "putStoreSnapshot env c store" "opt_LocationLabels (rc_opt c)" c]
        checkLocationLabels_log [of c c "opt_StrictlyMatchLabel (rc_opt c)" "putStoreSnapshot env c store" "opt_LocationLabels (rc_opt c)"]
        checkStoreLabels_err [of "opt_StrictlyMatchLabel (rc_opt c)" "opt_LocationLabels (rc_opt c)" "GetLabels (putStoreSnapshot env c store)"
            "fst (checkLocationLabels (opt_StrictlyMatchLabel (rc_opt c)) (putStoreSnapshot env c store) (opt_LocationLabels (rc_opt c)) c)"]
        checkStoreLabels_log [of c "fst (checkLocationLabels (opt_StrictlyMatchLabel (rc_opt c)) (putStoreSnapshot env c store) (opt_LocationLabels (rc_opt c)) c)"
            "opt_StrictlyMatchLabel (rc_opt c)" "opt_LocationLabels (rc_opt c)" "GetLabels (putStoreSnapshot env c store)"]
  by (auto simp: Let_def split: sum.splits option.splits prod.splits)


lemma putStoreLocked_lookup:
  "GetStore (fst (putStoreLocked env c s)) i =
     (if snd (putStoreLocked env c s) = None \<and> i = GetID s then Some s else GetStore c i)"
proof (cases "storeWritable env c (si_meta s)")
  case True
  from putStoreLocked_ok [OF True] show ?thesis by simp
next
  case False
  from putStoreLocked_fail [OF False] show ?thesis by auto
qed

lemma putStoreLocked_err:
  "(snd (putStoreLocked env c s) \<noteq> None) = (\<not> storeWritable env c (si_meta s))"
  using putStoreLocked_ok [of env c s] putStoreLocked_fail [of env c s] by auto

lemma putStoreSnapshot_id: "GetID (putStoreSnapshot env c store) = store_Id store"
proof (cases "GetStore c (store_Id store)")
  case None
  then show ?thesis by (simp add: putStoreSnapshot_def NewStoreInfo_def GetID_def)
next
  case (Some s0)
  from GetStore_GetID [OF Some] show ?thesis
    using Some
    by (simp add: putStoreSnapshot_def GetID_def SetStoreLabels_def SetStoreVersion_def
        SetStoreAddress_def Let_def)
qed

lemma putStoreSnapshot_state:
  "GetStore c (store_Id store) = Some s0 \<Longrightarrow> GetState (putStoreSnapshot env c store) = GetState s0"
  by (simp add: putStoreSnapshot_def GetState_def SetStoreLabels_def SetStoreVersion_def
      SetStoreAddress_def Let_def)

lemma putStore_err:
  "(snd (putStore env c store) \<noteq> None) =
     (putStoreRefused env c store \<or> \<not> storeWritable env c (si_meta (putStoreSnapshot env c store)))"
proof (cases "putStoreRefused env c store")
  case True
  from putStore_refused [OF True] True show ?thesis by simp
next
  case False
  from putStore_accepted [OF False] obtain c2 where
    c2: "sameButLog c c2" "putStore env c store = putStoreLocked env c2 (putStoreSnapshot env c store)"
    by blast
  show ?thesis
    using False c2 putStoreLocked_err [of env c2 "putStoreSnapshot env c store"]
      sameButLog_storeWritable [OF c2(1), of env]
    by simp
qed

lemma putStore_lookup:
  "GetStore (fst (putStore env c store)) i =
     (if snd (putStore env c store) = None \<and> i = store_Id store
      then Some (putStoreSnapshot env c store) else GetStore c i)"
proof (cases "putStoreRefused env c store")
  case True
  from putStore_refused [OF True] show ?thesis
    by (auto simp: sameButLog_GetStore)
next
  case False
  from putStore_accepted [OF False] obtain c2 where
    c2: "sameButLog c c2" "putStore env c store = putStoreLocked env c2 (putStoreSnapshot env c store)"
    by blast
  show ?thesis
    using c2 putStoreLocked_lookup [of env c2 "putStoreSnapshot env c store" i]
    by (simp add: putStoreSnapshot_id sameButLog_GetStore)
qed

lemma putStore_unchanged:
  "snd (putStore env c store) \<noteq> None \<Longrightarrow> sameButLog c (fst (putStore env c store))"
proof (cases "putStoreRefused env c store")
  case True
  from putStore_refused [OF True] show ?thesis by simp
next
  case False
  assume e: "snd (putStore env c store) \<noteq> None"
  from putStore_accepted [OF False] obtain c2 where
    c2: "sameButLog c c2" "putStore env c store = putStoreLocked env c2 (putStoreSnapshot env c store)"
    by blast
  from e c2 have "\<not> storeWritable env c2 (si_meta (putStoreSnapshot env c store))"
    using putStoreLocked_err [of env c2 "putStoreSnapshot env c store"] by auto
  from putStoreLocked_fail_log [OF this c2(1)] c2(2) show ?thesis by simp
qed

text \<open>
  Claim C6, as amended. \<^verbatim>\<open>putStore\<close> returns an error exactly when the store id
  is zero, the version does not parse or is incompatible with the cluster version, the
  address is held by a different store that is not Tombstone, the strict label check fails
  on the snapshot to be filed (the cached store with the labels merged in, or a new one;
  a configured key counts as missing when its value is empty), or the write of the store
  meta to the metadata store fails. On an error the cluster is unchanged but for the log;
  otherwise the snapshot is filed under the store id and the other stores are untouched.
\<close>

theorem putStore_rejects_iff:
  "(snd (putStore env c store) \<noteq> None) =
     (putStoreRefused env c store \<or>
      \<not> storeWritable env c (si_meta (putStoreSnapshot env c store))) \<and>
   (snd (putStore env c store) \<noteq> None \<longrightarrow> sameButLog c (fst (putStore env c store))) \<and>
   (snd (putStore env c store) = None \<longrightarrow>
      GetStore (fst (putStore env c store)) (store_Id store) = Some (putStoreSnapshot env c store) \<and>
      (\<forall>i. i \<noteq> store_Id store \<longrightarrow> GetStore (fst (putStore env c store)) i = GetStore c i))"
  using putStore_err [of env c store] putStore_unchanged [of env c store]
    putStore_lookup [of env c store]
  by simp

lemma RemoveStore_lookup:
  "GetStore c sid = Some s \<Longrightarrow> IsTombstone s \<Longrightarrow>
   GetStore (fst (RemoveStore env c i)) sid = Some s"
proof (cases "GetStore c i")
  case None
  assume "GetStore c sid = Some s"
  then show ?thesis using None by (simp add: RemoveStore_def)
next
  case (Some st)
  assume s: "GetStore c sid = Some s" and t: "IsTombstone s"
  have id: "GetID (core_SetStoreState StoreState_Offline st) = i"
    using GetStore_GetID [OF Some] by (simp add: GetID_def core_SetStoreState_def)
  show ?thesis
  proof (cases "i = sid")
    case True
    then have "st = s" using Some s by simp
    then show ?thesis using Some s t True
      by (simp add: RemoveStore_def)
  next
    case False
    then show ?thesis using Some s id
      by (simp add: RemoveStore_def Let_def putStoreLocked_lookup)
  qed
qed

lemma BuryStore_lookup:
  "GetStore c sid = Some s \<Longrightarrow> IsTombstone s \<Longrightarrow>
   GetStore (fst (BuryStore env c i force)) sid = Some s"
proof (cases "GetStore c i")
  case None
  assume "GetStore c sid = Some s"
  then show ?thesis using None by (simp add: BuryStore_def)
next
  case (Some st)
  assume s: "GetStore c sid = Some s" and t: "IsTombstone s"
  have id: "GetID (core_SetStoreState StoreState_Tombstone st) = i"
    using GetStore_GetID [OF Some] by (simp add: GetID_def core_SetStoreState_def)
  show ?thesis
  proof (cases "i = sid")
    case True
    then have "st = s" using Some s by simp
    then show ?thesis using Some s t True
      by (simp add: BuryStore_def)
  next
    case False
    then show ?thesis using Some s id
      by (simp add: BuryStore_def Let_def putStoreLocked_lookup)
  qed
qed

lemma SetStoreState_lookup:
  "GetStore c sid = Some s \<Longrightarrow>
   \<exists>s'. GetStore (fst (SetStoreState env c i st)) sid = Some s' \<and>
        GetState s' =
          (if i = sid \<and> storeWritable env c (si_meta (core_SetStoreState st s)) then st
           else GetState s)"
proof (cases "GetStore c i")
  case None
  assume s: "GetStore c sid = Some s"
  then have "i \<noteq> sid" using None by auto
  then show ?thesis using None s by (simp add: SetStoreState_def)
next
  case (Some x)
  assume s: "GetStore c sid = Some s"
  have id: "GetID (core_SetStoreState st x) = i"
    using GetStore_GetID [OF Some] by (simp add: GetID_def core_SetStoreState_def)
  have run: "SetStoreState env c i st =
      putStoreLocked env (logf LWarn ''store update state'' c) (core_SetStoreState st x)"
    using Some by (simp add: SetStoreState_def Let_def)
  show ?thesis
  proof (cases "i = sid")
    case True
    then have x: "x = s" using Some s by simp
    show ?thesis
      using True s id x run
        putStoreLocked_err [of env "logf LWarn ''store update state'' c" "core_SetStoreState st s"]
      by (auto simp: putStoreLocked_lookup GetState_def core_SetStoreState_def)
  next
    case False
    then show ?thesis using s id run by (simp add: putStoreLocked_lookup)
  qed
qed

text \<open>
  Claim C3, as amended. A Tombstone store is still Tombstone after \<^verbatim>\<open>putStore\<close>,
  \<^verbatim>\<open>RemoveStore\<close> and \<^verbatim>\<open>BuryStore\<close>, whatever their arguments.
  \<^verbatim>\<open>SetStoreState\<close> files the requested state without looking at the current
  one: the store is Tombstone afterwards unless the call names it and the write succeeds,
  and then its state is the requested one.
\<close>

theorem tombstone_is_kept:
  assumes "GetStore c sid = Some s" and "IsTombstone s"
  shows
   "(\<exists>s'. GetStore (fst (putStore env c store)) sid = Some s' \<and> IsTombstone s') \<and>
    (\<exists>s'. GetStore (fst (RemoveStore env c i)) sid = Some s' \<and> IsTombstone s') \<and>
    (\<exists>s'. GetStore (fst (BuryStore env c i force)) sid = Some s' \<and> IsTombstone s') \<and>
    (\<exists>s'. GetStore (fst (SetStoreState env c i st)) sid = Some s' \<and>
          GetState s' =
            (if i = sid \<and> storeWritable env c (si_meta (core_SetStoreState st s)) then st
             else StoreState_Tombstone))"
proof (intro conjI)
  show "\<exists>s'. GetStore (fst (putStore env c store)) sid = Some s' \<and> IsTombstone s'"
  proof (cases "snd (putStore env c store) = None \<and> sid = store_Id store")
    case True
    then have "GetStore c (store_Id store) = Some s" using assms by simp
    from putStoreSnapshot_state [OF this, of env] assms(2) True show ?thesis
      by (simp add: putStore_lookup IsTombstone_def)
  next
    case False
    then show ?thesis using assms by (auto simp: putStore_lookup)
  qed
  show "\<exists>s'. GetStore (fst (RemoveStore env c i)) sid = Some s' \<and> IsTombstone s'"
    using RemoveStore_lookup [OF assms] assms(2) by blast
  show "\<exists>s'. GetStore (fst (BuryStore env c i force)) sid = Some s' \<and> IsTombstone s'"
    using BuryStore_lookup [OF assms] assms(2) by blast
  show "\<exists>s'. GetStore (fst (SetStoreState env c i st)) sid = Some s' \<and>
          GetState s' =
            (if i = sid \<and> storeWritable env c (si_meta (core_SetStoreState st s)) then st
             else StoreState_Tombstone)"
    using SetStoreState_lookup [OF assms(1), of env i st] assms(2)
    by (auto simp: IsTombstone_def)
qed


theorem tombstone_is_kept_witness:
  "map_option GetState
     (GetStore (fst (putStore ex_env ex_cluster (ex_meta 3 ''a9'' StoreState_Up ex_labels))) 3) =
     Some StoreState_Tombstone \<and>
   map_option GetState (GetStore (fst (RemoveStore ex_env ex_cluster 3)) 3) = Some StoreState_Tombstone \<and>
   map_option GetState (GetStore (fst (BuryStore ex_env ex_cluster 3 True)) 3) = Some StoreState_Tombstone \<and>
   map_option GetState (GetStore (fst (SetStoreState ex_env ex_cluster 3 StoreState_Tombstone)) 3) =
     Some StoreState_Tombstone \<and>
   map_option GetState (GetStore (fst (SetStoreState ex_env ex_cluster 1 StoreState_Offline)) 3) =
     Some StoreState_Tombstone"
proof -
  have s3: "GetStore ex_cluster 3 = Some (NewStoreInfo (ex_meta 3 ''a3'' StoreState_Tombstone ex_labels))"
    by (simp add: ex_defs)
  have t: "IsTombstone (NewStoreInfo (ex_meta 3 ''a3'' StoreState_Tombstone ex_labels))"
    by (simp add: ex_defs)
  from tombstone_is_kept [OF s3 t, where env = ex_env
           and store = "ex_meta 3 ''a9'' StoreState_Up ex_labels" and i = 3 and force = True
           and st = StoreState_Tombstone]
       tombstone_is_kept [OF s3 t, where env = ex_env
           and store = "ex_meta 3 ''a9'' StoreState_Up ex_labels" and i = 1 and force = True
           and st = StoreState_Offline]
  show ?thesis by (auto simp: IsTombstone_def)
qed

text \<open>
  The claim C3 as stated fails for \<^verbatim>\<open>SetStoreState\<close>: the Tombstone store 3
  is Up after \<^verbatim>\<open>SetStoreState(3, Up)\<close>.
\<close>

theorem SetStoreState_revives_counterexample:
  "map_option GetState (GetStore ex_cluster 3) = Some StoreState_Tombstone \<and>
   snd (SetStoreState ex_env ex_cluster 3 StoreState_Up) = None \<and>
   map_option GetState (GetStore (fst (SetStoreState ex_env ex_cluster 3 StoreState_Up)) 3) =
     Some StoreState_Up"
  by (simp add: SetStoreState_def putStoreLocked_def core_PutStore_def logf_def Let_def ex_defs)

theorem putStore_rejects_iff_witness:
  "snd (putStore ex_env ex_cluster
          (ex_meta 4 ''a4'' StoreState_Up [\<lparr>label_Key = ''zone'', label_Value = ''z1''\<rparr>])) \<noteq> None \<and>
   sameButLog ex_cluster
     (fst (putStore ex_env ex_cluster
             (ex_meta 4 ''a4'' StoreState_Up [\<lparr>label_Key = ''zone'', label_Value = ''z1''\<rparr>]))) \<and>
   snd (putStore ex_env ex_cluster (ex_meta 4 ''a4'' StoreState_Up ex_labels)) = None \<and>
   GetStore (fst (putStore ex_env ex_cluster (ex_meta 4 ''a4'' StoreState_Up ex_labels))) 4 =
     Some (NewStoreInfo (ex_meta 4 ''a4'' StoreState_Up ex_labels)) \<and>
   snd (putStore ex_env ex_cluster (ex_meta 4 ''a1'' StoreState_Up ex_labels)) \<noteq> None \<and>
   snd (putStore ex_env ex_cluster (ex_meta 4 ''a3'' StoreState_Up ex_labels)) = None"
proof -
  have r1: "putStoreRefused ex_env ex_cluster
      (ex_meta 4 ''a4'' StoreState_Up [\<lparr>label_Key = ''zone'', label_Value = ''z1''\<rparr>])"
    by (simp add: putStoreRefused_def putStoreSnapshot_def GetLabelValue_def ex_defs)
  have r2: "\<not> putStoreRefused ex_env ex_cluster (ex_meta 4 ''a4'' StoreState_Up ex_labels)"
    by (simp add: putStoreRefused_def putStoreSnapshot_def GetLabelValue_def ex_defs)
  have r3: "putStoreRefused ex_env ex_cluster (ex_meta 4 ''a1'' StoreState_Up ex_labels)"
    by (simp add: putStoreRefused_def putStoreSnapshot_def GetLabelValue_def ex_defs)
  have r4: "\<not> putStoreRefused ex_env ex_cluster (ex_meta 4 ''a3'' StoreState_Up ex_labels)"
    by (simp add: putStoreRefused_def putStoreSnapshot_def GetLabelValue_def ex_defs)
  have w: "\<And>m. storeWritable ex_env ex_cluster m"
    by (simp add: ex_defs)
  have snap: "putStoreSnapshot ex_env ex_cluster (ex_meta 4 ''a4'' StoreState_Up ex_labels) =
      NewStoreInfo (ex_meta 4 ''a4'' StoreState_Up ex_labels)"
    by (simp add: putStoreSnapshot_def ex_defs)
  have id: "store_Id (ex_meta 4 ''a4'' StoreState_Up ex_labels) = 4"
    by (simp add: ex_defs)
  from putStore_rejects_iff [of ex_env ex_cluster
         "ex_meta 4 ''a4'' StoreState_Up [\<lparr>label_Key = ''zone'', label_Value = ''z1''\<rparr>]"]
       putStore_rejects_iff [of ex_env ex_cluster "ex_meta 4 ''a4'' StoreState_Up ex_labels"]
       putStore_rejects_iff [of ex_env ex_cluster "ex_meta 4 ''a1'' StoreState_Up ex_labels"]
       putStore_rejects_iff [of ex_env ex_cluster "ex_meta 4 ''a3'' StoreState_Up ex_labels"]
       r1 r2 r3 r4 w snap id
  show ?thesis by simp
qed

text \<open>
  The claim C6 as stated fails: with none of the refusals in force, \<^verbatim>\<open>putStore\<close>
  still returns an error when the metadata store refuses the write; and under the strict
  check a store whose \<^verbatim>\<open>zone\<close> label is present with an empty value is
  refused as lacking the key.
\<close>

theorem putStore_otherwise_counterexample:
  "\<not> putStoreRefused ex_env_down ex_cluster (ex_meta 4 ''a4'' StoreState_Up ex_labels) \<and>
   snd (putStore ex_env_down ex_cluster (ex_meta 4 ''a4'' StoreState_Up ex_labels)) =
     Some (ErrStorage ''etcd unavailable'') \<and>
   snd (putStore ex_env ex_cluster
          (ex_meta 4 ''a4'' StoreState_Up
             [\<lparr>label_Key = ''zone'', label_Value = []\<rparr>, \<lparr>label_Key = ''rack'', label_Value = ''r1''\<rparr>])) =
     Some (ErrLabelKeyMissing ''zone'')"
  by (simp add: putStoreRefused_def putStore_def putStoreSnapshot_def putStoreLocked_def
      GetLabelValue_def logf_def Let_def ex_defs)

section \<open>Properties of the region heartbeat\<close>

lemma newerOverlap_None:
  "(newerOverlap region xs = None) = (\<forall>x \<in> set xs. \<not> GetVersion region < GetVersion x)"
  by (induction xs) auto

lemma newerOverlap_Some:
  "newerOverlap region xs = Some item \<Longrightarrow> item \<in> set xs \<and> GetVersion region < GetVersion item"
  by (induction xs) (auto split: if_splits)

lemma applyHeartbeat_ok: "snd (applyHeartbeat env c region origin ws rs flags) = None"
  by (cases flags) (simp add: applyHeartbeat_def Let_def)

lemma GetRegion_member: "GetRegion c i = Some r \<Longrightarrow> r \<in> set (rc_regions c)"
  unfolding GetRegion_def using find_Some_set [of "\<lambda>r. GetRegionID r = i" "rc_regions c" r] by simp

text \<open>The two outcomes of a heartbeat: it is stale, or it is taken.\<close>

lemma processRegionHeartbeat_stale:
  assumes "heartbeatIsStale c region"
  shows "\<exists>item \<in> set (rc_regions c).
           processRegionHeartbeat env c region =
             (c, Some (ErrRegionIsStale (ri_meta region) (ri_meta item)))"
proof (cases "GetRegion c (GetRegionID region)")
  case None
  with assms obtain x where "x \<in> set (GetOverlaps c region)" "GetVersion region < GetVersion x"
    by (auto simp: heartbeatIsStale_def GetOverlaps_def)
  then have "newerOverlap region (GetOverlaps c region) \<noteq> None"
    by (auto simp: newerOverlap_None)
  then obtain item where i: "newerOverlap region (GetOverlaps c region) = Some item" by blast
  from newerOverlap_Some [OF i] have "item \<in> set (rc_regions c)"
    by (simp add: GetOverlaps_def)
  moreover have "processRegionHeartbeat env c region =
      (c, Some (ErrRegionIsStale (ri_meta region) (ri_meta item)))"
    using None i by (simp add: processRegionHeartbeat_def Let_def)
  ultimately show ?thesis by blast
next
  case (Some orig)
  with assms have "GetVersion region < GetVersion orig \<or> GetConfVer region < GetConfVer orig"
    by (simp add: heartbeatIsStale_def)
  then have "processRegionHeartbeat env c region =
      (c, Some (ErrRegionIsStale (ri_meta region) (ri_meta orig)))"
    using Some by (simp add: processRegionHeartbeat_def Let_def)
  then show ?thesis using GetRegion_member [OF Some] by blast
qed

lemma processRegionHeartbeat_fresh:
  assumes "\<not> heartbeatIsStale c region"
  shows "snd (processRegionHeartbeat env c region) = None"
proof (cases "GetRegion c (GetRegionID region)")
  case None
  with assms have "newerOverlap region (GetOverlaps c region) = None"
    by (auto simp: heartbeatIsStale_def newerOverlap_None GetOverlaps_def)
  then show ?thesis
    using None by (simp add: processRegionHeartbeat_def Let_def applyHeartbeat_ok)
next
  case (Some orig)
  with assms have "\<not> (GetVersion region < GetVersion orig \<or> GetConfVer region < GetConfVer orig)"
    by (simp add: heartbeatIsStale_def)
  then show ?thesis
    using Some
    by (simp add: processRegionHeartbeat_def Let_def applyHeartbeat_ok split: prod.splits)
qed

text \<open>
  Claim C1. \<^verbatim>\<open>processRegionHeartbeat\<close> answers \<^verbatim>\<open>RegionIsStale\<close> exactly
  when a region with the id is cached and the heartbeat's version or conf_ver is smaller
  than the cached one, or no region with the id is cached and some cached region
  overlapping the heartbeat's range has a greater version; and then the whole cluster,
  cache and metadata store included, is returned as it was. In every other case the
  result is success.
\<close>

theorem processRegionHeartbeat_stale_iff:
  "(heartbeatIsStale c region \<longrightarrow>
      (\<exists>item \<in> set (rc_regions c).
         processRegionHeartbeat env c region =
           (c, Some (ErrRegionIsStale (ri_meta region) (ri_meta item))))) \<and>
   (\<not> heartbeatIsStale c region \<longrightarrow> snd (processRegionHeartbeat env c region) = None)"
proof (intro conjI impI)
  assume "heartbeatIsStale c region"
  then show "\<exists>item \<in> set (rc_regions c).
         processRegionHeartbeat env c region =
           (c, Some (ErrRegionIsStale (ri_meta region) (ri_meta item)))"
    by (rule processRegionHeartbeat_stale)
next
  assume "\<not> heartbeatIsStale c region"
  then show "snd (processRegionHeartbeat env c region) = None"
    by (rule processRegionHeartbeat_fresh)
qed

lemma sameCache_refl [simp]: "sameCache c c"
  by (simp add: sameCache_def)

lemma sameCache_sym: "sameCache c d \<Longrightarrow> sameCache d c"
  by (simp add: sameCache_def)

lemma sameCache_trans: "sameCache c d \<Longrightarrow> sameCache d e \<Longrightarrow> sameCache c e"
  by (simp add: sameCache_def)

lemma sameCache_fields [simp]:
  "sameCache (c\<lparr>rc_log := l\<rparr>) d = sameCache c d"
  "sameCache (c\<lparr>rc_storage := st\<rparr>) d = sameCache c d"
  "sameCache (c\<lparr>rc_changedRegions := ch\<rparr>) d = sameCache c d"
  "sameCache (c\<lparr>rc_prepareChecker := pc\<rparr>) d = sameCache c d"
  "sameCache (c\<lparr>rc_regionStats := rs\<rparr>) d = sameCache c d"
  "sameCache (c\<lparr>rc_labelLevelStats := ls\<rparr>) d = sameCache c d"
  "sameCache (c\<lparr>rc_hotSpotCache := h\<rparr>) d = sameCache c d"
  "sameCache d (c\<lparr>rc_log := l\<rparr>) = sameCache d c"
  "sameCache d (c\<lparr>rc_storage := st\<rparr>) = sameCache d c"
  "sameCache d (c\<lparr>rc_changedRegions := ch\<rparr>) = sameCache d c"
  "sameCache d (c\<lparr>rc_prepareChecker := pc\<rparr>) = sameCache d c"
  "sameCache d (c\<lparr>rc_regionStats := rs\<rparr>) = sameCache d c"
  "sameCache d (c\<lparr>rc_labelLevelStats := ls\<rparr>) = sameCache d c"
  "sameCache d (c\<lparr>rc_hotSpotCache := h\<rparr>) = sameCache d c"
  by (simp_all add: sameCache_def)

lemma sameCache_saveRegionKV [simp]:
  "sameCache (saveRegionKV env region c) d = sameCache c d"
  "sameCache d (saveRegionKV env region c) = sameCache d c"
  by (simp_all add: saveRegionKV_def sendChangedRegion_def logf_def split: option.splits)

lemma sameCache_deleteRegionKV [simp]:
  "sameCache (deleteRegionKV env c item) d = sameCache c d"
  "sameCache d (deleteRegionKV env c item) = sameCache d c"
  by (simp_all add: deleteRegionKV_def logf_def split: option.splits)

lemma sameCache_clearDefunctRegion [simp]:
  "sameCache (clearDefunctRegion c item) d = sameCache c d"
  "sameCache d (clearDefunctRegion c item) = sameCache d c"
  by (simp_all add: clearDefunctRegion_def Let_def split: option.splits)

lemma sameCache_foldl_delete:
  "sameCache (foldl (deleteRegionKV env) c items) d = sameCache c d"
  by (induction items arbitrary: c) simp_all

lemma sameCache_foldl_clear:
  "sameCache (foldl clearDefunctRegion c items) d = sameCache c d"
  by (induction items arbitrary: c) simp_all

lemma sameCache_updateStoreStatusLocked:
  "sameCache c d \<Longrightarrow> sameCache (updateStoreStatusLocked c i) (updateStoreStatusLocked d i)"
  by (simp add: sameCache_def updateStoreStatusLocked_def UpdateStoreStatus_def GetStore_def
      core_PutStore_def Let_def split: option.splits)

lemma sameCache_foldl_update:
  "sameCache c d \<Longrightarrow>
   sameCache (foldl updateStoreStatusLocked c ids) (foldl updateStoreStatusLocked d ids)"
  by (induction ids arbitrary: c d) (simp_all add: sameCache_updateStoreStatusLocked)

lemma sameCache_core_PutRegion:
  "sameCache c d \<Longrightarrow>
   sameCache (fst (core_PutRegion region c)) (fst (core_PutRegion region d)) \<and>
   snd (core_PutRegion region c) = snd (core_PutRegion region d)"
  by (simp add: sameCache_def core_PutRegion_def)

lemma sameCache_updateCache:
  assumes "sameCache c d"
  shows "sameCache (updateCache env1 region origin c) (updateCache env2 region origin d)"
proof -
  obtain c1 ov where c1: "core_PutRegion region c = (c1, ov)" by (cases "core_PutRegion region c")
  obtain d1 ov' where d1: "core_PutRegion region d = (d1, ov')" by (cases "core_PutRegion region d")
  from sameCache_core_PutRegion [OF assms, of region] c1 d1
  have e: "sameCache c1 d1" "ov' = ov" by simp_all
  let ?c3 = "foldl clearDefunctRegion (foldl (deleteRegionKV env1) c1 ov) ov"
  let ?d3 = "foldl clearDefunctRegion (foldl (deleteRegionKV env2) d1 ov) ov"
  have "sameCache ?c3 d1"
    using e(1) by (simp add: sameCache_foldl_clear sameCache_foldl_delete)
  then have "sameCache d1 ?c3" by (rule sameCache_sym)
  then have "sameCache ?d3 ?c3"
    by (simp add: sameCache_foldl_clear sameCache_foldl_delete)
  then have s3: "sameCache ?c3 ?d3" by (rule sameCache_sym)
  show ?thesis
    using c1 d1 e(2) s3
    by (cases origin)
       (simp_all add: updateCache_def Let_def sameCache_foldl_update)
qed

lemma sameCache_regionStats [simp]:
  "sameCache (case ro of None \<Rightarrow> c | Some rs \<Rightarrow> c\<lparr>rc_regionStats := f rs\<rparr>) d = sameCache c d"
  "sameCache d (case ro of None \<Rightarrow> c | Some rs \<Rightarrow> c\<lparr>rc_regionStats := f rs\<rparr>) = sameCache d c"
  by (cases ro; simp)+

lemma sameCache_applyHeartbeat:
  assumes "sameCache c d"
  shows "sameCache (fst (applyHeartbeat env1 c region origin ws rs flags))
           (fst (applyHeartbeat env2 d region origin ws rs flags))"
proof -
  obtain kv ca nw where f: "flags = (kv, ca, nw)" by (cases flags)
  define c1 where "c1 = (if kv then saveRegionKV env1 region c else c)"
  define d1 where "d1 = (if kv then saveRegionKV env2 region d else d)"
  have s1: "sameCache c1 d1" using assms by (simp add: c1_def d1_def)
  define c2 where "c2 = (if nw then c1\<lparr>rc_prepareChecker := collect region (rc_prepareChecker c1)\<rparr> else c1)"
  define d2 where "d2 = (if nw then d1\<lparr>rc_prepareChecker := collect region (rc_prepareChecker d1)\<rparr> else d1)"
  have s2: "sameCache c2 d2" using s1 by (simp add: c2_def d2_def)
  define c3 where "c3 = (if ca then updateCache env1 region origin c2 else c2)"
  define d3 where "d3 = (if ca then updateCache env2 region origin d2 else d2)"
  have s3: "sameCache c3 d3"
    using sameCache_updateCache [OF s2, of env1 region origin env2] s2 by (simp add: c3_def d3_def)
  show ?thesis
  proof (cases "length ws = 0 \<and> length rs = 0 \<and> \<not> ca \<and> \<not> nw")
    case True
    then have "fst (applyHeartbeat env1 c region origin ws rs flags) = c1"
      and "fst (applyHeartbeat env2 d region origin ws rs flags) = d1"
      unfolding f applyHeartbeat_def c1_def d1_def by simp_all
    then show ?thesis using s1 by simp
  next
    case False
    then have "sameCache (fst (applyHeartbeat env1 c region origin ws rs flags)) d3 = sameCache c3 d3"
      unfolding f applyHeartbeat_def c3_def c2_def c1_def by (simp add: Let_def del: length_0_conv)
    moreover from False
    have "sameCache c3 (fst (applyHeartbeat env2 d region origin ws rs flags)) = sameCache c3 d3"
      unfolding f applyHeartbeat_def d3_def d2_def d1_def by (simp add: Let_def del: length_0_conv)
    ultimately show ?thesis
      using s3 by (meson sameCache_sym sameCache_trans)
  qed
qed

lemma compareWithOrigin_log: "sameButLog c (fst (compareWithOrigin c region orig))"
  by (simp add: compareWithOrigin_def Let_def split: prod.splits if_splits)

lemma compareWithOrigin_flags:
  "snd (compareWithOrigin c region orig) = snd (compareWithOrigin d region orig)"
  by (simp add: compareWithOrigin_def Let_def split: prod.splits if_splits)

lemma sameButLog_sameCache: "sameButLog c c' \<Longrightarrow> sameCache c c'"
  unfolding sameButLog_def sameCache_def
  by (metis RaftCluster.select_convs(1,2) RaftCluster.surjective RaftCluster.update_convs(11))

text \<open>The cache after a heartbeat does not depend on the outcome of the writes.\<close>

lemma processRegionHeartbeat_cache:
  assumes "CheckWriteStatus env2 = CheckWriteStatus env1"
    and "CheckReadStatus env2 = CheckReadStatus env1"
  shows "sameCache (fst (processRegionHeartbeat env1 c region))
           (fst (processRegionHeartbeat env2 c region))"
proof (cases "heartbeatIsStale c region")
  case True
  from processRegionHeartbeat_stale [OF True, of env1]
       processRegionHeartbeat_stale [OF True, of env2]
  show ?thesis by auto
next
  case False
  show ?thesis
  proof (cases "GetRegion c (GetRegionID region)")
    case None
    then have n: "newerOverlap region (GetOverlaps c region) = None"
      using False by (auto simp: heartbeatIsStale_def newerOverlap_None GetOverlaps_def)
    show ?thesis
      using None n assms
      by (simp add: processRegionHeartbeat_def Let_def sameCache_applyHeartbeat)
  next
    case (Some orig)
    then have ns: "\<not> (GetVersion region < GetVersion orig \<or> GetConfVer region < GetConfVer orig)"
      using False by (simp add: heartbeatIsStale_def)
    obtain c1 flags where cw: "compareWithOrigin c region orig = (c1, flags)"
      by (cases "compareWithOrigin c region orig")
    show ?thesis
      using Some ns cw assms
      by (simp add: processRegionHeartbeat_def Let_def sameCache_applyHeartbeat)
  qed
qed


lemma updateStoreStatusLocked_frame [simp]:
  "rc_regions (updateStoreStatusLocked c i) = rc_regions c"
  "rc_log (updateStoreStatusLocked c i) = rc_log c"
  by (simp_all add: updateStoreStatusLocked_def UpdateStoreStatus_def core_PutStore_def Let_def
      split: option.splits)

lemma foldl_updateStoreStatusLocked_frame [simp]:
  "rc_regions (foldl updateStoreStatusLocked c ids) = rc_regions c"
  "rc_log (foldl updateStoreStatusLocked c ids) = rc_log c"
  by (induction ids arbitrary: c) simp_all

lemma clearDefunctRegion_frame [simp]:
  "rc_regions (clearDefunctRegion c item) = rc_regions c"
  "rc_log (clearDefunctRegion c item) = rc_log c"
  by (simp_all add: clearDefunctRegion_def Let_def split: option.splits)

lemma foldl_clearDefunctRegion_frame [simp]:
  "rc_regions (foldl clearDefunctRegion c items) = rc_regions c"
  "rc_log (foldl clearDefunctRegion c items) = rc_log c"
  by (induction items arbitrary: c) simp_all

lemma deleteRegionKV_frame [simp]:
  "rc_regions (deleteRegionKV env c item) = rc_regions c"
  by (simp add: deleteRegionKV_def logf_def split: option.splits)

lemma deleteRegionKV_log: "set (rc_log c) \<subseteq> set (rc_log (deleteRegionKV env c item))"
  by (auto simp: deleteRegionKV_def logf_def split: option.splits)

lemma foldl_deleteRegionKV_frame [simp]:
  "rc_regions (foldl (deleteRegionKV env) c items) = rc_regions c"
  by (induction items arbitrary: c) simp_all

lemma foldl_deleteRegionKV_log:
  "set (rc_log c) \<subseteq> set (rc_log (foldl (deleteRegionKV env) c items))"
proof (induction items arbitrary: c)
  case Nil
  show ?case by simp
next
  case (Cons a items)
  from Cons [of "deleteRegionKV env c a"] deleteRegionKV_log [of c env a]
  show ?case by auto
qed

lemma updateCache_regions:
  "rc_regions (updateCache env region origin c) =
     filter (\<lambda>x. GetRegionID x \<noteq> GetRegionID region \<and> \<not> evictedBy region x) (rc_regions c) @ [region]"
  by (cases origin) (simp_all add: updateCache_def core_PutRegion_def Let_def)

lemma updateCache_log: "set (rc_log c) \<subseteq> set (rc_log (updateCache env region origin c))"
  using foldl_deleteRegionKV_log
    [of "c\<lparr>rc_regions := filter (\<lambda>x. GetRegionID x \<noteq> GetRegionID region \<and> \<not> evictedBy region x)
            (rc_regions c) @ [region]\<rparr>" env "filter (evictedBy region) (rc_regions c)"]
  by (cases origin) (simp_all add: updateCache_def core_PutRegion_def Let_def)

lemma find_filter_snoc:
  "find (\<lambda>r. GetRegionID r = GetRegionID region)
     (filter (\<lambda>x. GetRegionID x \<noteq> GetRegionID region \<and> Q x) xs @ [region]) = Some region"
  by (induction xs) auto

lemma GetRegion_updateCache:
  "GetRegion (updateCache env region origin c) (GetRegionID region) = Some region"
  by (simp add: GetRegion_def updateCache_regions find_filter_snoc)

lemma GetRegion_fields [simp]:
  "GetRegion (c\<lparr>rc_regionStats := rs\<rparr>) i = GetRegion c i"
  "GetRegion (c\<lparr>rc_hotSpotCache := h\<rparr>) i = GetRegion c i"
  by (simp_all add: GetRegion_def)

lemma saveRegionKV_log:
  "set (rc_log c) \<subseteq> set (rc_log (saveRegionKV env region c))"
  by (auto simp: saveRegionKV_def sendChangedRegion_def logf_def split: option.splits)

lemma saveRegionKV_fails:
  "rc_storage c \<noteq> None \<Longrightarrow> SaveRegion_err env (ri_meta region) = Some msg \<Longrightarrow>
   (LError, ''failed to save region to storage'') \<in> set (rc_log (saveRegionKV env region c)) \<and>
   rc_storage (saveRegionKV env region c) = rc_storage c"
  by (auto simp: saveRegionKV_def sendChangedRegion_def logf_def split: option.splits)

lemma regionStats_case_frame [simp]:
  "rc_log (case ro of None \<Rightarrow> c | Some rs \<Rightarrow> c\<lparr>rc_regionStats := f rs\<rparr>) = rc_log c"
  "GetRegion (case ro of None \<Rightarrow> c | Some rs \<Rightarrow> c\<lparr>rc_regionStats := f rs\<rparr>) i = GetRegion c i"
  by (cases ro; simp)+

text \<open>With the cache flag set, the heartbeat reaches the region index.\<close>

lemma applyHeartbeat_GetRegion:
  "GetRegion (fst (applyHeartbeat env c region origin ws rs (kv, True, nw))) (GetRegionID region) =
     Some region"
  by (cases nw; cases kv) (simp_all add: applyHeartbeat_def Let_def GetRegion_updateCache)

lemma applyHeartbeat_log:
  assumes "rc_storage c \<noteq> None" and "SaveRegion_err env (ri_meta region) = Some msg"
  shows "(LError, ''failed to save region to storage'') \<in>
           set (rc_log (fst (applyHeartbeat env c region origin ws rs (True, True, nw))))"
proof -
  let ?c1 = "saveRegionKV env region c"
  have l1: "(LError, ''failed to save region to storage'') \<in> set (rc_log ?c1)"
    using saveRegionKV_fails [OF assms] by simp
  show ?thesis
  proof (cases nw)
    case True
    let ?c2 = "?c1\<lparr>rc_prepareChecker := collect region (rc_prepareChecker ?c1)\<rparr>"
    have "(LError, ''failed to save region to storage'') \<in> set (rc_log ?c2)" using l1 by simp
    then have "(LError, ''failed to save region to storage'') \<in> set (rc_log (updateCache env region origin ?c2))"
      using updateCache_log [of ?c2 env region origin] by blast
    then show ?thesis using True by (simp add: applyHeartbeat_def Let_def)
  next
    case False
    have "(LError, ''failed to save region to storage'') \<in> set (rc_log (updateCache env region origin ?c1))"
      using l1 updateCache_log [of ?c1 env region origin] by blast
    then show ?thesis using False by (simp add: applyHeartbeat_def Let_def)
  qed
qed

lemma compareWithOrigin_saveKV:
  "compareWithOrigin c region orig = (c1, kv, ca, nw) \<Longrightarrow> kv \<Longrightarrow> ca"
  by (auto simp: compareWithOrigin_def Let_def split: prod.splits if_splits)

lemma compareWithOrigin_storage:
  "rc_storage (fst (compareWithOrigin c region orig)) = rc_storage c"
  by (simp add: compareWithOrigin_def Let_def logf_def split: prod.splits if_splits)

text \<open>
  Claim C4. No heartbeat returns a persistence error. When a heartbeat that is not stale
  sets \<^verbatim>\<open>saveKV\<close> and the write of the region meta fails, the failure is
  logged, the result is success, the region is in the region index afterwards, and the
  store and region indexes are the ones that the same heartbeat leaves when the write
  succeeds.
\<close>

theorem heartbeat_save_failure:
  "(\<forall>m. snd (processRegionHeartbeat env c region) \<noteq> Some (ErrStorage m)) \<and>
   (\<not> heartbeatIsStale c region \<and> fst (heartbeatFlags c region) \<and>
    rc_storage c \<noteq> None \<and> SaveRegion_err env (ri_meta region) \<noteq> None \<longrightarrow>
      snd (processRegionHeartbeat env c region) = None \<and>
      (LError, ''failed to save region to storage'') \<in>
         set (rc_log (fst (processRegionHeartbeat env c region))) \<and>
      GetRegion (fst (processRegionHeartbeat env c region)) (GetRegionID region) = Some region \<and>
      sameCache (fst (processRegionHeartbeat env c region))
        (fst (processRegionHeartbeat (env\<lparr>SaveRegion_err := \<lambda>m. None\<rparr>) c region)))"
proof (intro conjI allI impI)
  fix m
  show "snd (processRegionHeartbeat env c region) \<noteq> Some (ErrStorage m)"
    using processRegionHeartbeat_stale [of c region env] processRegionHeartbeat_fresh [of c region env]
    by (cases "heartbeatIsStale c region") auto
next
  assume a: "\<not> heartbeatIsStale c region \<and> fst (heartbeatFlags c region) \<and>
    rc_storage c \<noteq> None \<and> SaveRegion_err env (ri_meta region) \<noteq> None"
  then obtain msg where msg: "SaveRegion_err env (ri_meta region) = Some msg" by auto
  show "snd (processRegionHeartbeat env c region) = None"
    using processRegionHeartbeat_fresh [of c region env] a by simp
  show "sameCache (fst (processRegionHeartbeat env c region))
        (fst (processRegionHeartbeat (env\<lparr>SaveRegion_err := \<lambda>m. None\<rparr>) c region))"
    by (rule processRegionHeartbeat_cache) simp_all
  have "(LError, ''failed to save region to storage'') \<in>
         set (rc_log (fst (processRegionHeartbeat env c region))) \<and>
      GetRegion (fst (processRegionHeartbeat env c region)) (GetRegionID region) = Some region"
  proof (cases "GetRegion c (GetRegionID region)")
    case None
    then have n: "newerOverlap region (GetOverlaps c region) = None"
      using a by (auto simp: heartbeatIsStale_def newerOverlap_None GetOverlaps_def)
    have st: "rc_storage (logf LDebug ''insert new region'' c) \<noteq> None"
      using a by (simp add: logf_def)
    show ?thesis
      using None n applyHeartbeat_log [OF st msg] applyHeartbeat_GetRegion
      by (simp add: processRegionHeartbeat_def Let_def)
  next
    case (Some orig)
    then have ns: "\<not> (GetVersion region < GetVersion orig \<or> GetConfVer region < GetConfVer orig)"
      using a by (simp add: heartbeatIsStale_def)
    obtain c1 kv ca nw where cw: "compareWithOrigin c region orig = (c1, kv, ca, nw)"
      by (cases "compareWithOrigin c region orig") auto
    have kv: "kv" using a Some cw by (simp add: heartbeatFlags_def)
    have ca: "ca" using compareWithOrigin_saveKV [OF cw kv] .
    have st: "rc_storage c1 \<noteq> None"
      using compareWithOrigin_storage [of c region orig] cw a by simp
    show ?thesis
      using Some ns cw kv ca applyHeartbeat_log [OF st msg] applyHeartbeat_GetRegion
      by (simp add: processRegionHeartbeat_def Let_def)
  qed
  then show "(LError, ''failed to save region to storage'') \<in>
         set (rc_log (fst (processRegionHeartbeat env c region)))"
    and "GetRegion (fst (processRegionHeartbeat env c region)) (GetRegionID region) = Some region"
    by simp_all
qed


lemmas ex_region_defs =
  ex_cluster_r_def ex_region_def ex_peer_def GetRegion_def GetRegionID_def GetVersion_def
  GetConfVer_def GetOverlaps_def overlaps_def before_end_def heartbeatIsStale_def

theorem processRegionHeartbeat_stale_iff_witness:
  "processRegionHeartbeat ex_env ex_cluster_r (ex_region 1 [97] [109] 4 3) =
     (ex_cluster_r,
      Some (ErrRegionIsStale (ri_meta (ex_region 1 [97] [109] 4 3)) (ri_meta (ex_region 1 [97] [109] 5 2)))) \<and>
   processRegionHeartbeat ex_env ex_cluster_r (ex_region 2 [97] [122] 4 1) =
     (ex_cluster_r,
      Some (ErrRegionIsStale (ri_meta (ex_region 2 [97] [122] 4 1)) (ri_meta (ex_region 1 [97] [109] 5 2)))) \<and>
   snd (processRegionHeartbeat ex_env ex_cluster_r (ex_region 2 [109] [122] 1 1)) = None \<and>
   snd (processRegionHeartbeat ex_env ex_cluster_r (ex_region 1 [97] [109] 6 2)) = None"
proof -
  have regs: "rc_regions ex_cluster_r = [ex_region 1 [97] [109] 5 2]"
    by (simp add: ex_cluster_r_def)
  have "heartbeatIsStale ex_cluster_r (ex_region 1 [97] [109] 4 3)"
    by (simp add: ex_region_defs ex_cluster_def)
  from processRegionHeartbeat_stale_iff [of ex_cluster_r "ex_region 1 [97] [109] 4 3" ex_env] this
  have a: "processRegionHeartbeat ex_env ex_cluster_r (ex_region 1 [97] [109] 4 3) =
     (ex_cluster_r,
      Some (ErrRegionIsStale (ri_meta (ex_region 1 [97] [109] 4 3)) (ri_meta (ex_region 1 [97] [109] 5 2))))"
    by (simp add: regs)
  have "heartbeatIsStale ex_cluster_r (ex_region 2 [97] [122] 4 1)"
    by (simp add: ex_region_defs ex_cluster_def)
  from processRegionHeartbeat_stale_iff [of ex_cluster_r "ex_region 2 [97] [122] 4 1" ex_env] this
  have b: "processRegionHeartbeat ex_env ex_cluster_r (ex_region 2 [97] [122] 4 1) =
     (ex_cluster_r,
      Some (ErrRegionIsStale (ri_meta (ex_region 2 [97] [122] 4 1)) (ri_meta (ex_region 1 [97] [109] 5 2))))"
    by (simp add: regs)
  have "\<not> heartbeatIsStale ex_cluster_r (ex_region 2 [109] [122] 1 1)"
    by (simp add: ex_region_defs ex_cluster_def)
  from processRegionHeartbeat_stale_iff [of ex_cluster_r "ex_region 2 [109] [122] 1 1" ex_env] this
  have c: "snd (processRegionHeartbeat ex_env ex_cluster_r (ex_region 2 [109] [122] 1 1)) = None"
    by simp
  have "\<not> heartbeatIsStale ex_cluster_r (ex_region 1 [97] [109] 6 2)"
    by (simp add: ex_region_defs ex_cluster_def)
  from processRegionHeartbeat_stale_iff [of ex_cluster_r "ex_region 1 [97] [109] 6 2" ex_env] this
  have d: "snd (processRegionHeartbeat ex_env ex_cluster_r (ex_region 1 [97] [109] 6 2)) = None"
    by simp
  from a b c d show ?thesis by simp
qed

theorem heartbeat_save_failure_witness:
  "snd (processRegionHeartbeat ex_env_down ex_cluster_r (ex_region 2 [109] [122] 1 1)) = None \<and>
   (LError, ''failed to save region to storage'') \<in>
      set (rc_log (fst (processRegionHeartbeat ex_env_down ex_cluster_r (ex_region 2 [109] [122] 1 1)))) \<and>
   GetRegion (fst (processRegionHeartbeat ex_env_down ex_cluster_r (ex_region 2 [109] [122] 1 1))) 2 =
      Some (ex_region 2 [109] [122] 1 1) \<and>
   snd (processRegionHeartbeat ex_env_down ex_cluster_r (ex_region 1 [97] [109] 6 2)) = None \<and>
   GetRegion (fst (processRegionHeartbeat ex_env_down ex_cluster_r (ex_region 1 [97] [109] 6 2))) 1 =
      Some (ex_region 1 [97] [109] 6 2)"
proof -
  have h1: "\<not> heartbeatIsStale ex_cluster_r (ex_region 2 [109] [122] 1 1) \<and>
      fst (heartbeatFlags ex_cluster_r (ex_region 2 [109] [122] 1 1)) \<and>
      rc_storage ex_cluster_r \<noteq> None \<and>
      SaveRegion_err ex_env_down (ri_meta (ex_region 2 [109] [122] 1 1)) \<noteq> None"
    by (simp add: ex_region_defs heartbeatFlags_def ex_cluster_def ex_env_down_def ex_env_def)
  have h2: "\<not> heartbeatIsStale ex_cluster_r (ex_region 1 [97] [109] 6 2) \<and>
      fst (heartbeatFlags ex_cluster_r (ex_region 1 [97] [109] 6 2)) \<and>
      rc_storage ex_cluster_r \<noteq> None \<and>
      SaveRegion_err ex_env_down (ri_meta (ex_region 1 [97] [109] 6 2)) \<noteq> None"
    by (simp add: ex_region_defs heartbeatFlags_def compareWithOrigin_def Let_def
        ex_cluster_def ex_env_down_def ex_env_def)
  have ids: "GetRegionID (ex_region 2 [109] [122] 1 1) = 2" "GetRegionID (ex_region 1 [97] [109] 6 2) = 1"
    by (simp_all add: ex_region_defs)
  from heartbeat_save_failure [of ex_env_down ex_cluster_r "ex_region 2 [109] [122] 1 1"]
       heartbeat_save_failure [of ex_env_down ex_cluster_r "ex_region 1 [97] [109] 6 2"]
       h1 h2 ids
  show ?thesis by simp
qed

section \<open>Properties of the schedule configuration\<close>

lemma validateSchedulers_None:
  "(validateSchedulers reg scs = None) = (\<forall>sc \<in> set scs. reg (sc_Type sc))"
  by (induction scs) auto

text \<open>
  On operands that are not NaN the comparisons of Go are those of a linear order; with a
  NaN operand every one of them is false.
\<close>

lemma float_not_lt: "x \<noteq> NaN \<Longrightarrow> y \<noteq> NaN \<Longrightarrow> (\<not> float_lt x y) = float_le y x"
  by (cases x; cases y) (auto simp: float_le_def float_eq_def)

lemma float_not_le: "x \<noteq> NaN \<Longrightarrow> y \<noteq> NaN \<Longrightarrow> (\<not> float_le x y) = float_lt y x"
  by (cases x; cases y) (auto simp: float_le_def float_eq_def)

lemma float_NaN_compare:
  "\<not> float_lt NaN y" "\<not> float_lt x NaN" "\<not> float_le NaN y" "\<not> float_le x NaN"
  "\<not> float_gt NaN y" "\<not> float_gt x NaN" "\<not> float_eq NaN y" "\<not> float_eq x NaN"
  by (cases x; cases y; simp add: float_le_def float_gt_def float_eq_def)+

lemma Validate_numbers:
  assumes "TolerantSizeRatio c \<noteq> NaN" "LowSpaceRatio c \<noteq> NaN" "HighSpaceRatio c \<noteq> NaN"
  shows "(Validate reg c = None) =
     (float_le (Finite 0) (TolerantSizeRatio c) \<and>
      float_le (Finite 0) (LowSpaceRatio c) \<and> float_le (LowSpaceRatio c) (Finite 1) \<and>
      float_le (Finite 0) (HighSpaceRatio c) \<and> float_le (HighSpaceRatio c) (Finite 1) \<and>
      float_lt (HighSpaceRatio c) (LowSpaceRatio c) \<and>
      (\<forall>sc \<in> set (Schedulers c). reg (sc_Type sc)))"
proof -
  have t: "(\<not> float_lt (TolerantSizeRatio c) (Finite 0)) = float_le (Finite 0) (TolerantSizeRatio c)"
    using assms by (simp add: float_not_lt)
  have l: "(\<not> (float_lt (LowSpaceRatio c) (Finite 0) \<or> float_gt (LowSpaceRatio c) (Finite 1))) =
      (float_le (Finite 0) (LowSpaceRatio c) \<and> float_le (LowSpaceRatio c) (Finite 1))"
    using assms by (simp add: float_not_lt float_gt_def)
  have h: "(\<not> (float_lt (HighSpaceRatio c) (Finite 0) \<or> float_gt (HighSpaceRatio c) (Finite 1))) =
      (float_le (Finite 0) (HighSpaceRatio c) \<and> float_le (HighSpaceRatio c) (Finite 1))"
    using assms by (simp add: float_not_lt float_gt_def)
  have o: "(\<not> float_le (LowSpaceRatio c) (HighSpaceRatio c)) = float_lt (HighSpaceRatio c) (LowSpaceRatio c)"
    using assms by (simp add: float_not_le)
  show ?thesis
    unfolding Validate_def using t l h o
    by (auto simp: validateSchedulers_None)
qed

text \<open>What \<^verbatim>\<open>adjust\<close> leaves in the fields that \<^verbatim>\<open>Validate\<close> reads.\<close>

lemma adjustFloat64_zero: "adjustFloat64 v (Finite 0) = v"
  by (cases v) (auto simp: adjustFloat64_def float_eq_def)

lemma adjustFloat64_if:
  "adjustFloat64 v d = (if v = Finite 0 then d else v)"
  by (cases v) (auto simp: adjustFloat64_def float_eq_def)

lemma adjust_fields:
  "TolerantSizeRatio (fst (adjust isDefined reg c)) = TolerantSizeRatio c"
  "LowSpaceRatio (fst (adjust isDefined reg c)) =
     (if LowSpaceRatio c = Finite 0 then defaultLowSpaceRatio else LowSpaceRatio c)"
  "HighSpaceRatio (fst (adjust isDefined reg c)) =
     (if HighSpaceRatio c = Finite 0 then defaultHighSpaceRatio else HighSpaceRatio c)"
  "Schedulers (fst (adjust isDefined reg c)) =
     (if Schedulers c = [] then defaultSchedulers else Schedulers c)"
  "snd (adjust isDefined reg c) = Validate reg (fst (adjust isDefined reg c))"
  by (simp_all add: adjust_def Let_def adjustFloat64_zero defaultTolerantSizeRatio_def
        adjustFloat64_if adjustSchedulers_def)

lemma default_ratios_in_range:
  "float_le (Finite 0) defaultLowSpaceRatio" "float_le defaultLowSpaceRatio (Finite 1)"
  "float_le (Finite 0) defaultHighSpaceRatio" "float_le defaultHighSpaceRatio (Finite 1)"
  "defaultLowSpaceRatio \<noteq> NaN" "defaultHighSpaceRatio \<noteq> NaN"
  by (simp_all add: defaultLowSpaceRatio_def defaultHighSpaceRatio_def float_le_def float_eq_def)

lemma zero_in_range: "float_le (Finite 0) (Finite 0)" "float_le (Finite 0) (Finite 1)"
  by (simp_all add: float_le_def float_eq_def)

lemma adjust_numbers:
  assumes "TolerantSizeRatio c \<noteq> NaN" "LowSpaceRatio c \<noteq> NaN" "HighSpaceRatio c \<noteq> NaN"
  shows "(snd (adjust isDefined reg c) = None) =
     (float_le (Finite 0) (TolerantSizeRatio c) \<and>
      float_le (Finite 0) (LowSpaceRatio c) \<and> float_le (LowSpaceRatio c) (Finite 1) \<and>
      float_le (Finite 0) (HighSpaceRatio c) \<and> float_le (HighSpaceRatio c) (Finite 1) \<and>
      float_lt (if HighSpaceRatio c = Finite 0 then defaultHighSpaceRatio else HighSpaceRatio c)
               (if LowSpaceRatio c = Finite 0 then defaultLowSpaceRatio else LowSpaceRatio c) \<and>
      (\<forall>sc \<in> set (if Schedulers c = [] then defaultSchedulers else Schedulers c). reg (sc_Type sc)))"
proof -
  let ?c = "fst (adjust isDefined reg c)"
  have n: "TolerantSizeRatio ?c \<noteq> NaN" "LowSpaceRatio ?c \<noteq> NaN" "HighSpaceRatio ?c \<noteq> NaN"
    using assms by (simp_all add: adjust_fields default_ratios_in_range)
  have l: "(float_le (Finite 0) (LowSpaceRatio ?c) \<and> float_le (LowSpaceRatio ?c) (Finite 1)) =
           (float_le (Finite 0) (LowSpaceRatio c) \<and> float_le (LowSpaceRatio c) (Finite 1))"
    by (simp add: adjust_fields default_ratios_in_range zero_in_range)
  have h: "(float_le (Finite 0) (HighSpaceRatio ?c) \<and> float_le (HighSpaceRatio ?c) (Finite 1)) =
           (float_le (Finite 0) (HighSpaceRatio c) \<and> float_le (HighSpaceRatio c) (Finite 1))"
    by (simp add: adjust_fields default_ratios_in_range zero_in_range)
  have "(snd (adjust isDefined reg c) = None) = (Validate reg ?c = None)"
    by (simp add: adjust_fields(5))
  also have "\<dots> =
     (float_le (Finite 0) (TolerantSizeRatio ?c) \<and>
      (float_le (Finite 0) (LowSpaceRatio ?c) \<and> float_le (LowSpaceRatio ?c) (Finite 1)) \<and>
      (float_le (Finite 0) (HighSpaceRatio ?c) \<and> float_le (HighSpaceRatio ?c) (Finite 1)) \<and>
      float_lt (HighSpaceRatio ?c) (LowSpaceRatio ?c) \<and>
      (\<forall>sc \<in> set (Schedulers ?c). reg (sc_Type sc)))"
    using Validate_numbers [OF n, of reg] by simp
  also have "\<dots> =
     (float_le (Finite 0) (TolerantSizeRatio c) \<and>
      (float_le (Finite 0) (LowSpaceRatio c) \<and> float_le (LowSpaceRatio c) (Finite 1)) \<and>
      (float_le (Finite 0) (HighSpaceRatio c) \<and> float_le (HighSpaceRatio c) (Finite 1)) \<and>
      float_lt (if HighSpaceRatio c = Finite 0 then defaultHighSpaceRatio else HighSpaceRatio c)
               (if LowSpaceRatio c = Finite 0 then defaultLowSpaceRatio else LowSpaceRatio c) \<and>
      (\<forall>sc \<in> set (if Schedulers c = [] then defaultSchedulers else Schedulers c). reg (sc_Type sc)))"
    unfolding l h by (simp only: adjust_fields)
  finally show ?thesis by simp
qed

text \<open>
  Claim C9, as amended. For a configuration whose three ratios are numbers (not NaN),
  \<^verbatim>\<open>ScheduleConfig.Validate\<close> accepts exactly when tolerant-size-ratio is
  nonnegative, low-space-ratio and high-space-ratio lie between 0 and 1, low-space-ratio is
  strictly greater than high-space-ratio, and every scheduler of the schedulers list is
  registered. Loading such a configuration, \<^verbatim>\<open>adjust\<close> returns no error exactly
  when tolerant-size-ratio is nonnegative, low-space-ratio and high-space-ratio lie between
  0 and 1, low-space-ratio is strictly greater than high-space-ratio once a ratio equal
  to 0 has been replaced by its default (0.8 for low-space-ratio, 0.6 for
  high-space-ratio), and every scheduler of the list is registered, the default list
  standing for an empty one.
\<close>

theorem Validate_accepts_iff:
  assumes "TolerantSizeRatio c \<noteq> NaN" and "LowSpaceRatio c \<noteq> NaN" and "HighSpaceRatio c \<noteq> NaN"
  shows
  "((Validate reg c = None) =
     (float_le (Finite 0) (TolerantSizeRatio c) \<and>
      float_le (Finite 0) (LowSpaceRatio c) \<and> float_le (LowSpaceRatio c) (Finite 1) \<and>
      float_le (Finite 0) (HighSpaceRatio c) \<and> float_le (HighSpaceRatio c) (Finite 1) \<and>
      float_lt (HighSpaceRatio c) (LowSpaceRatio c) \<and>
      (\<forall>sc \<in> set (Schedulers c). reg (sc_Type sc)))) \<and>
   ((snd (adjust isDefined reg c) = None) =
     (float_le (Finite 0) (TolerantSizeRatio c) \<and>
      float_le (Finite 0) (LowSpaceRatio c) \<and> float_le (LowSpaceRatio c) (Finite 1) \<and>
      float_le (Finite 0) (HighSpaceRatio c) \<and> float_le (HighSpaceRatio c) (Finite 1) \<and>
      float_lt (if HighSpaceRatio c = Finite 0 then defaultHighSpaceRatio else HighSpaceRatio c)
               (if LowSpaceRatio c = Finite 0 then defaultLowSpaceRatio else LowSpaceRatio c) \<and>
      (\<forall>sc \<in> set (if Schedulers c = [] then defaultSchedulers else Schedulers c).
          reg (sc_Type sc))))"
  using Validate_numbers [OF assms, of reg] adjust_numbers [OF assms, of isDefined reg]
  by (simp only: simp_thms)

lemmas ex_config_defs = ex_config_def ex_registered_def float_le_def float_eq_def
  defaultLowSpaceRatio_def defaultHighSpaceRatio_def defaultSchedulers_def

theorem Validate_accepts_iff_witness:
  "TolerantSizeRatio ex_config \<noteq> NaN \<and> LowSpaceRatio ex_config \<noteq> NaN \<and>
   HighSpaceRatio ex_config \<noteq> NaN \<and>
   Validate ex_registered ex_config = None \<and>
   snd (adjust (\<lambda>k. False) ex_registered ex_config) = None \<and>
   Validate ex_registered (ex_config\<lparr>LowSpaceRatio := Finite (1 / 2)\<rparr>) \<noteq> None \<and>
   Validate ex_registered (ex_config\<lparr>TolerantSizeRatio := Finite (- 1)\<rparr>) \<noteq> None \<and>
   Validate ex_registered (ex_config\<lparr>HighSpaceRatio := Finite 2\<rparr>) \<noteq> None \<and>
   Validate ex_registered (ex_config\<lparr>LowSpaceRatio := PosInf\<rparr>) \<noteq> None \<and>
   Validate ex_registered
     (ex_config\<lparr>Schedulers := [\<lparr>sc_Type = ''balance-regoin'', sc_Args = [], sc_Disable = False,
                                  sc_ArgsPayload = []\<rparr>]\<rparr>) \<noteq> None \<and>
   snd (adjust (\<lambda>k. False) ex_registered (ex_config\<lparr>LowSpaceRatio := Finite (1 / 2)\<rparr>)) \<noteq> None \<and>
   snd (adjust (\<lambda>k. False) ex_registered (ex_config\<lparr>Schedulers := []\<rparr>)) = None \<and>
   snd (adjust (\<lambda>k. False) ex_registered
          (ex_config\<lparr>LowSpaceRatio := Finite 0, HighSpaceRatio := Finite 0\<rparr>)) = None"
proof -
  have n: "TolerantSizeRatio ex_config \<noteq> NaN" "LowSpaceRatio ex_config \<noteq> NaN"
      "HighSpaceRatio ex_config \<noteq> NaN"
    by (simp_all add: ex_config_def)
  have a: "Validate ex_registered ex_config = None"
      "snd (adjust (\<lambda>k. False) ex_registered ex_config) = None"
    using Validate_accepts_iff [of ex_config ex_registered "\<lambda>k. False"]
    by (simp_all add: ex_config_defs)
  have b: "Validate ex_registered (ex_config\<lparr>LowSpaceRatio := Finite (1 / 2)\<rparr>) \<noteq> None"
      "snd (adjust (\<lambda>k. False) ex_registered (ex_config\<lparr>LowSpaceRatio := Finite (1 / 2)\<rparr>)) \<noteq> None"
    using Validate_accepts_iff [of "ex_config\<lparr>LowSpaceRatio := Finite (1 / 2)\<rparr>" ex_registered "\<lambda>k. False"]
    by (simp_all add: ex_config_defs)
  have c: "Validate ex_registered (ex_config\<lparr>TolerantSizeRatio := Finite (- 1)\<rparr>) \<noteq> None"
    using Validate_accepts_iff [of "ex_config\<lparr>TolerantSizeRatio := Finite (- 1)\<rparr>" ex_registered "\<lambda>k. False"]
    by (simp add: ex_config_defs)
  have d: "Validate ex_registered (ex_config\<lparr>HighSpaceRatio := Finite 2\<rparr>) \<noteq> None"
    using Validate_accepts_iff [of "ex_config\<lparr>HighSpaceRatio := Finite 2\<rparr>" ex_registered "\<lambda>k. False"]
    by (simp add: ex_config_defs)
  have e: "Validate ex_registered (ex_config\<lparr>LowSpaceRatio := PosInf\<rparr>) \<noteq> None"
    using Validate_accepts_iff [of "ex_config\<lparr>LowSpaceRatio := PosInf\<rparr>" ex_registered "\<lambda>k. False"]
    by (simp add: ex_config_defs)
  have f: "Validate ex_registered
     (ex_config\<lparr>Schedulers := [\<lparr>sc_Type = ''balance-regoin'', sc_Args = [], sc_Disable = False,
                                  sc_ArgsPayload = []\<rparr>]\<rparr>) \<noteq> None"
    using Validate_accepts_iff [of "ex_config\<lparr>Schedulers := [\<lparr>sc_Type = ''balance-regoin'',
        sc_Args = [], sc_Disable = False, sc_ArgsPayload = []\<rparr>]\<rparr>" ex_registered "\<lambda>k. False"]
    by (simp add: ex_config_defs)
  have g: "snd (adjust (\<lambda>k. False) ex_registered (ex_config\<lparr>Schedulers := []\<rparr>)) = None"
    using Validate_accepts_iff [of "ex_config\<lparr>Schedulers := []\<rparr>" ex_registered "\<lambda>k. False"]
    by (simp add: ex_config_defs)
  have h: "snd (adjust (\<lambda>k. False) ex_registered
          (ex_config\<lparr>LowSpaceRatio := Finite 0, HighSpaceRatio := Finite 0\<rparr>)) = None"
    using Validate_accepts_iff [of "ex_config\<lparr>LowSpaceRatio := Finite 0, HighSpaceRatio := Finite 0\<rparr>"
        ex_registered "\<lambda>k. False"]
    by (simp add: ex_config_defs)
  from n a b c d e f g h show ?thesis by simp
qed

text \<open>
  The claim as stated fails. A configuration file that sets low-space-ratio to 0 and
  high-space-ratio to 0.75 has its low-space-ratio below its high-space-ratio, and
  \<^verbatim>\<open>Validate\<close> refuses it; loaded through \<^verbatim>\<open>adjust\<close> it is accepted, because
  the 0 is replaced by the default before the validation. A ratio that is NaN passes every
  comparison of \<^verbatim>\<open>Validate\<close>.
\<close>

theorem adjust_defaults_counterexample:
  "\<not> float_lt (HighSpaceRatio (ex_config\<lparr>LowSpaceRatio := Finite 0, HighSpaceRatio := Finite (3 / 4)\<rparr>))
               (LowSpaceRatio (ex_config\<lparr>LowSpaceRatio := Finite 0, HighSpaceRatio := Finite (3 / 4)\<rparr>)) \<and>
   Validate ex_registered (ex_config\<lparr>LowSpaceRatio := Finite 0, HighSpaceRatio := Finite (3 / 4)\<rparr>) =
     Some ''low-space-ratio should be larger than high-space-ratio'' \<and>
   snd (adjust (\<lambda>k. True) ex_registered
          (ex_config\<lparr>LowSpaceRatio := Finite 0, HighSpaceRatio := Finite (3 / 4)\<rparr>)) = None \<and>
   \<not> float_lt (HighSpaceRatio (ex_config\<lparr>LowSpaceRatio := NaN\<rparr>)) (LowSpaceRatio (ex_config\<lparr>LowSpaceRatio := NaN\<rparr>)) \<and>
   \<not> float_le (Finite 0) (LowSpaceRatio (ex_config\<lparr>LowSpaceRatio := NaN\<rparr>)) \<and>
   Validate ex_registered (ex_config\<lparr>LowSpaceRatio := NaN\<rparr>) = None \<and>
   \<not> float_le (Finite 0) (TolerantSizeRatio (ex_config\<lparr>TolerantSizeRatio := NaN\<rparr>)) \<and>
   Validate ex_registered (ex_config\<lparr>TolerantSizeRatio := NaN\<rparr>) = None"
  by (simp add: ex_config_defs Validate_def adjust_def Let_def adjustFloat64_def
        adjustSchedulers_def float_gt_def adjustUint64_def adjustDuration_def adjustString_def)

section \<open>Properties of the balance-region scheduler\<close>

lemma nonNil_append [simp]: "nonNil (xs @ ys) = nonNil xs @ nonNil ys"
  by (induction xs rule: nonNil.induct) simp_all

lemma nonNil_replicate [simp]: "nonNil (replicate n None) = []"
  by (induction n) simp_all

lemma nonNil_map_Some [simp]: "nonNil (map Some xs) = xs"
  by (induction xs) simp_all

lemma partition_foldl:
  "foldl (\<lambda>(storageStores, performanceStores) store.
              (let storeType = store_StoreType (si_meta store) in
               if storeType = StoreType_Storage
               then (storageStores @ [Some store], performanceStores)
               else if storeType = StoreType_Performance
               then (storageStores, performanceStores @ [Some store])
               else (storageStores, performanceStores @ [Some store])))
       (a, b) stores =
   (a @ map Some (filter isStorage stores), b @ map Some (filter (\<lambda>s. \<not> isStorage s) stores))"
  by (induction stores arbitrary: a b) (simp_all add: isStorage_def Let_def)

lemma partitionStores_eq:
  "partitionStores stores =
     (replicate (length stores) None @ map Some (filter isStorage stores),
      replicate (length stores) None @ map Some (filter (\<lambda>s. \<not> isStorage s) stores))"
  unfolding partitionStores_def by (rule partition_foldl)

text \<open>
  Claim C2, as amended. \<^verbatim>\<open>Schedule\<close> sorts the stores of the cluster into two
  tiers by the store type: the stores of type Storage form the Storage tier, and every
  other store, of type Performance or of any further type, is in the Performance tier.
  It first runs \<^verbatim>\<open>scheduleImpl\<close> with the Storage tier as the stores to pick the
  source from and the Performance tier as the excluded targets, and returns the operators
  if there are any; otherwise it runs \<^verbatim>\<open>scheduleImpl\<close> with the two tiers
  swapped.
\<close>

theorem Schedule_two_tiers:
  "nonNil (fst (partitionStores stores)) =
     filter (\<lambda>s. store_StoreType (si_meta s) = StoreType_Storage) stores \<and>
   nonNil (snd (partitionStores stores)) =
     filter (\<lambda>s. store_StoreType (si_meta s) \<noteq> StoreType_Storage) stores \<and>
   Schedule deps cluster st =
     (case scheduleImpl deps cluster (fst (partitionStores (cl_GetStores cluster)))
             (snd (partitionStores (cl_GetStores cluster))) st of
        (st1, Inr None) \<Rightarrow>
          scheduleImpl deps cluster (snd (partitionStores (cl_GetStores cluster)))
            (fst (partitionStores (cl_GetStores cluster))) st1
      | (st1, r) \<Rightarrow> (st1, r))"
proof (intro conjI)
  show "nonNil (fst (partitionStores stores)) =
     filter (\<lambda>s. store_StoreType (si_meta s) = StoreType_Storage) stores"
    by (simp add: partitionStores_eq isStorage_def [abs_def])
  show "nonNil (snd (partitionStores stores)) =
     filter (\<lambda>s. store_StoreType (si_meta s) \<noteq> StoreType_Storage) stores"
    by (simp add: partitionStores_eq isStorage_def [abs_def])
  show "Schedule deps cluster st =
     (case scheduleImpl deps cluster (fst (partitionStores (cl_GetStores cluster)))
             (snd (partitionStores (cl_GetStores cluster))) st of
        (st1, Inr None) \<Rightarrow>
          scheduleImpl deps cluster (snd (partitionStores (cl_GetStores cluster)))
            (fst (partitionStores (cl_GetStores cluster))) st1
      | (st1, r) \<Rightarrow> (st1, r))"
    unfolding Schedule_def Let_def
    by (cases "partitionStores (cl_GetStores cluster)")
       (auto split: prod.splits sum.splits option.splits)
qed

lemma pickRegion_Some:
  "pickRegion cl i st = (st1, Some r) \<Longrightarrow>
   \<exists>n. cl_RandPendingRegion cl n i = Some r \<or> cl_RandFollowerRegion cl n i = Some r \<or>
       cl_RandLeaderRegion cl n i = Some r"
  unfolding pickRegion_def by (auto split: option.splits)

lemma retryLoop_hot:
  assumes "\<forall>n i r. cl_RandPendingRegion cl n i = Some r \<or> cl_RandFollowerRegion cl n i = Some r \<or>
             cl_RandLeaderRegion cl n i = Some r \<longrightarrow> cl_IsRegionHot cl r"
  shows "snd (retryLoop deps cl source ex k st) = Inr None"
proof (induction k arbitrary: st)
  case 0
  show ?case by simp
next
  case (Suc k)
  obtain st1 picked where p: "pickRegion cl (GetID source) st = (st1, picked)"
    by (cases "pickRegion cl (GetID source) st")
  show ?case
  proof (cases picked)
    case None
    then show ?thesis using p Suc by simp
  next
    case (Some r)
    from pickRegion_Some [OF p [unfolded Some]] assms have "cl_IsRegionHot cl r" by blast
    then show ?thesis using p Some Suc by simp
  qed
qed

lemma scheduleImpl_hot:
  assumes "\<forall>n i r. cl_RandPendingRegion cl n i = Some r \<or> cl_RandFollowerRegion cl n i = Some r \<or>
             cl_RandLeaderRegion cl n i = Some r \<longrightarrow> cl_IsRegionHot cl r"
  shows "snd (scheduleImpl deps cl inc ex st) = Inr None"
  unfolding scheduleImpl_def Let_def
  using retryLoop_hot [OF assms]
  by (auto split: prod.splits option.splits)

lemma retryLoop_op:
  "retryLoop deps cl source ex k st = (st', Inr (Some ops)) \<Longrightarrow>
   \<exists>op r p st0 st1. ops = [op] \<and> \<not> cl_IsRegionHot cl r \<and>
      int (length (GetPeers r)) = cl_GetMaxReplicas cl \<and>
      transferPeer deps cl r p ex st0 = (st1, Inr (Some op))"
proof (induction k arbitrary: st)
  case 0
  then show ?case by simp
next
  case (Suc k)
  obtain st1 picked where p: "pickRegion cl (GetID source) st = (st1, picked)"
    by (cases "pickRegion cl (GetID source) st")
  show ?case
  proof (cases picked)
    case None
    then have "retryLoop deps cl source ex k (hits_put deps st1 (Some source) None) = (st', Inr (Some ops))"
      using p Suc.prems by simp
    from Suc.IH [OF this] show ?thesis .
  next
    case (Some r)
    show ?thesis
    proof (cases "int (length (GetPeers r)) \<noteq> cl_GetMaxReplicas cl \<or> cl_IsRegionHot cl r")
      case True
      then have "retryLoop deps cl source ex k (hits_put deps st1 (Some source) None) = (st', Inr (Some ops))"
        using p Some Suc.prems by (auto split: if_splits)
      from Suc.IH [OF this] show ?thesis .
    next
      case False
      obtain st2 res where t: "transferPeer deps cl r (GetStorePeer r (GetID source)) ex st1 = (st2, res)"
        by (cases "transferPeer deps cl r (GetStorePeer r (GetID source)) ex st1")
      show ?thesis
      proof (cases res)
        case (Inl pn)
        then show ?thesis using p Some False t Suc.prems by simp
      next
        case (Inr o1)
        show ?thesis
        proof (cases o1)
          case None
          then have "retryLoop deps cl source ex k st2 = (st', Inr (Some ops))"
            using p \<open>picked = Some r\<close> False t Inr Suc.prems by simp
          from Suc.IH [OF this] show ?thesis .
        next
          case (Some op)
          then have "ops = [op]" using p \<open>picked = Some r\<close> False t Inr Suc.prems by simp
          then show ?thesis using False t Inr Some by blast
        qed
      qed
    qed
  qed
qed

lemma scheduleImpl_op:
  assumes "scheduleImpl deps cl inc ex st = (st', Inr (Some ops))"
  shows "\<exists>op r p st0 st1. ops = [op] \<and> \<not> cl_IsRegionHot cl r \<and>
      int (length (GetPeers r)) = cl_GetMaxReplicas cl \<and>
      transferPeer deps cl r p ex st0 = (st1, Inr (Some op))"
proof -
  obtain st1 f where b: "buildSourceFilter deps balanceRegionName cl st = (st1, f)"
    by (cases "buildSourceFilter deps balanceRegionName cl st")
  show ?thesis
  proof (cases "SelectSource deps cl inc [f]")
    case None
    then show ?thesis using assms b by (simp add: scheduleImpl_def)
  next
    case (Some source)
    then have "retryLoop deps cl source ex balanceRegionRetryLimit st1 = (st', Inr (Some ops))"
      using assms b by (simp add: scheduleImpl_def)
    from retryLoop_op [OF this] show ?thesis .
  qed
qed

text \<open>
  Claim C7. When every region that the cluster can hand out as a candidate is hot,
  \<^verbatim>\<open>Schedule\<close> returns no operator. Whenever it returns operators, there is one,
  and \<^verbatim>\<open>transferPeer\<close> built it for a region that is not hot.
\<close>

theorem Schedule_skips_hot_regions:
  "((\<forall>n i r. cl_RandPendingRegion cl n i = Some r \<or> cl_RandFollowerRegion cl n i = Some r \<or>
             cl_RandLeaderRegion cl n i = Some r \<longrightarrow> cl_IsRegionHot cl r) \<longrightarrow>
      snd (Schedule deps cl st) = Inr None) \<and>
   (\<forall>ops. snd (Schedule deps cl st) = Inr (Some ops) \<longrightarrow>
      (\<exists>op r p ex st0 st1. ops = [op] \<and> \<not> cl_IsRegionHot cl r \<and>
         transferPeer deps cl r p ex st0 = (st1, Inr (Some op))))"
proof (intro conjI impI allI)
  assume h: "\<forall>n i r. cl_RandPendingRegion cl n i = Some r \<or> cl_RandFollowerRegion cl n i = Some r \<or>
             cl_RandLeaderRegion cl n i = Some r \<longrightarrow> cl_IsRegionHot cl r"
  obtain a b where ab: "partitionStores (cl_GetStores cl) = (a, b)"
    by (cases "partitionStores (cl_GetStores cl)")
  obtain st1 r1 where s1: "scheduleImpl deps cl a b st = (st1, r1)"
    by (cases "scheduleImpl deps cl a b st")
  from scheduleImpl_hot [OF h, of deps a b st] s1 have r1: "r1 = Inr None" by simp
  show "snd (Schedule deps cl st) = Inr None"
    using ab s1 r1 scheduleImpl_hot [OF h, of deps b a st1]
    by (simp add: Schedule_def Let_def)
next
  fix ops
  assume r: "snd (Schedule deps cl st) = Inr (Some ops)"
  obtain a b where ab: "partitionStores (cl_GetStores cl) = (a, b)"
    by (cases "partitionStores (cl_GetStores cl)")
  obtain st1 r1 where s1: "scheduleImpl deps cl a b st = (st1, r1)"
    by (cases "scheduleImpl deps cl a b st")
  show "\<exists>op r p ex st0 st1. ops = [op] \<and> \<not> cl_IsRegionHot cl r \<and>
         transferPeer deps cl r p ex st0 = (st1, Inr (Some op))"
  proof (cases "r1 = Inr None")
    case True
    obtain st2 where "scheduleImpl deps cl b a st1 = (st2, Inr (Some ops))"
      using r ab s1 True by (cases "scheduleImpl deps cl b a st1") (simp add: Schedule_def Let_def)
    from scheduleImpl_op [OF this] show ?thesis by blast
  next
    case False
    then have "r1 = Inr (Some ops)"
      using r ab s1 by (auto simp: Schedule_def Let_def split: sum.splits option.splits)
    with s1 have "scheduleImpl deps cl a b st = (st1, Inr (Some ops))" by simp
    from scheduleImpl_op [OF this] show ?thesis by blast
  qed
qed


theorem Schedule_skips_hot_regions_witness:
  "snd (Schedule ex_deps ex_cl newBalanceRegionScheduler) = Inr None"
proof -
  have "\<forall>n i r. cl_RandPendingRegion ex_cl n i = Some r \<or> cl_RandFollowerRegion ex_cl n i = Some r \<or>
             cl_RandLeaderRegion ex_cl n i = Some r \<longrightarrow> cl_IsRegionHot ex_cl r"
    by (simp add: ex_cl_def)
  with Schedule_skips_hot_regions [of ex_cl ex_deps newBalanceRegionScheduler]
  show ?thesis by blast
qed

theorem Schedule_two_tiers_witness:
  "nonNil (fst (partitionStores (cl_GetStores ex_cl))) = [ex_st 1 StoreType_Storage] \<and>
   nonNil (snd (partitionStores (cl_GetStores ex_cl))) =
     [ex_st 2 StoreType_Performance, ex_st 3 StoreType_Other]"
  using Schedule_two_tiers [of "cl_GetStores ex_cl" ex_deps ex_cl newBalanceRegionScheduler]
  by (simp add: ex_cl_def ex_st_def NewStoreInfo_def ex_meta_def)

text \<open>
  The claim C2 as stated fails: a store whose type is neither Storage nor Performance is
  put into the Performance tier, not into the Storage tier.
\<close>

theorem Schedule_other_type_counterexample:
  "store_StoreType (si_meta (ex_st 3 StoreType_Other)) \<noteq> StoreType_Performance \<and>
   nonNil (fst (partitionStores [ex_st 3 StoreType_Other])) = [] \<and>
   nonNil (snd (partitionStores [ex_st 3 StoreType_Other])) = [ex_st 3 StoreType_Other]"
  by (simp add: partitionStores_def Let_def ex_st_def NewStoreInfo_def ex_meta_def)

section \<open>Properties of the hit counter\<close>

















end
